theory Spec2Isabelle
  imports Complex_Main "HOL-Library.List_Lexorder" "HOL-Library.Char_ord" "HOL-Library.AList"
begin

section \<open>Paths\<close>

text \<open>
  A \<^verbatim>\<open>pathlib.Path\<close> is modelled by the list of its parts, which is what pathlib compares
  for equality and for order (\<^verbatim>\<open>Path('a/b')\<close> has the parts \<^verbatim>\<open>['a', 'b']\<close>; an absolute path
  has its root first, \<^verbatim>\<open>'/'\<close> or \<^verbatim>\<open>'//'\<close>). Lists of strings are ordered lexicographically,
  strings by character code, as Python orders them.
\<close>

type_synonym path = "string list"

fun join_parts :: "string list \<Rightarrow> string" where
  "join_parts [] = []"
| "join_parts [p] = p"
| "join_parts (p # q # ps) = p @ ''/'' @ join_parts (q # ps)"

text \<open>
  \<^verbatim>\<open>str(path)\<close>: the parts joined by \<^verbatim>\<open>/\<close>, after the root if there is one; the empty path
  prints as a dot.
\<close>

definition str_path :: "path \<Rightarrow> string" where
  "str_path p =
     (case p of
        [] \<Rightarrow> ''.''
      | r # ps \<Rightarrow> if r = ''/'' \<or> r = ''//'' then r @ join_parts ps else join_parts (r # ps))"

text \<open>\<^verbatim>\<open>prefix / fname\<close>: an absolute right operand replaces the left one.\<close>

definition path_join :: "path \<Rightarrow> path \<Rightarrow> path" where
  "path_join p q = (case q of [] \<Rightarrow> p | r # _ \<Rightarrow> if r = ''/'' \<or> r = ''//'' then q else p @ q)"

text \<open>
  \<^verbatim>\<open>s.replace(old, new)\<close> for a pattern \<^verbatim>\<open>old\<close> of one character, the only form
  \<^verbatim>\<open>flatten_path\<close> uses.
\<close>

definition replace :: "char \<Rightarrow> string \<Rightarrow> string \<Rightarrow> string" where
  "replace old new s = concat (map (\<lambda>c. if c = old then new else [c]) s)"

text \<open>
  \<^verbatim>\<open>def flatten_path(path): return str(path).replace("/", "_SLASH_").replace(" ", "_SPACE_")\<close>
\<close>

definition flatten_path :: "path \<Rightarrow> string" where
  "flatten_path p = replace CHR '' '' ''_SPACE_'' (replace CHR ''/'' ''_SLASH_'' (str_path p))"

record cmd_info =
  remote_file :: path
  local_file :: path
  local_prefix :: path
  flattened_name :: string
  transfer_manifest :: path

text \<open>\<^verbatim>\<open>make_cmd_info\<close>: one work-item descriptor per file, in the order given.\<close>

definition make_cmd_info :: "path list \<Rightarrow> path \<Rightarrow> path \<Rightarrow> path \<Rightarrow> cmd_info list" where
  "make_cmd_info fnames remote_prefix local_prefix' transfer_manifest_path =
     map (\<lambda>fname.
           \<lparr>remote_file = path_join remote_prefix fname,
            local_file = path_join local_prefix' fname,
            local_prefix = local_prefix',
            flattened_name = flatten_path fname,
            transfer_manifest = transfer_manifest_path\<rparr>) fnames"

text \<open>
  The name of the per-item metadata file, as \<^verbatim>\<open>main\<close> builds it for \<^verbatim>\<open>verify_metadata\<close>:
  \<^verbatim>\<open>"{}.metadata".format(info["flattened_name"])\<close>.
\<close>

definition metadata_file_name :: "cmd_info \<Rightarrow> string" where
  "metadata_file_name info = flattened_name info @ ''.metadata''"

section \<open>Manifest entries\<close>

datatype transfer_direction = PULL | PUSH

text \<open>The fields of a \<^verbatim>\<open>SyncRequest\<close>, in the order of its \<^verbatim>\<open>keys\<close>.\<close>

record sync_info =
  direction :: transfer_direction
  remote_prefix :: path
  files_at_source :: int
  files_to_transfer :: int
  bytes_to_transfer :: int
  files_to_verify :: int
  bytes_to_verify :: int
  timestamp :: real

text \<open>
  The concrete subclasses of \<^verbatim>\<open>ManifestEntry\<close> with their fields in the order of \<^verbatim>\<open>keys\<close>:
  name, size, digest, timestamp.
\<close>

datatype entry =
    TransferRequest path int
  | VerifyRequest path int
  | TransferVerified path int string real
  | SyncRequest sync_info
  | SyncDone real
  | File path int
  | Metadata path int string

section \<open>Errors\<close>

text \<open>
  The messages of \<^verbatim>\<open>InconsistentManifest\<close>, one constructor per message text of
  \<^verbatim>\<open>analyze\<close>, with the values the message is formatted with. A \<^verbatim>\<open>SyncDone\<close> before any
  \<^verbatim>\<open>SyncRequest\<close> raises with the text of the request branch, hence also \<open>RequestBeforeSync\<close>.
\<close>

datatype inconsistency =
    RequestBeforeSync nat
  | VerificationBeforeSync nat
  | VerifiedNotRequested path
  | VerifiedSizeDifferent int path int
  | DoneWorkRemaining
  | LocalSizesMismatch nat
  | WorkRemaining
  | NoSynchronization

datatype error =
    InconsistentManifest inconsistency
  | InvalidManifestEntry
  | VerificationFailed
  | KeyError string
  | FileNotFoundError path
  | ValueError
  | TypeError
  | JSONDecodeError

section \<open>The sync log as a file\<close>

text \<open>
  A line of the log is an entry, or a blank or \<^verbatim>\<open>#\<close> line (\<open>None\<close>), which \<^verbatim>\<open>read_manifest\<close>
  skips; the lines are taken as parsed (parsing is modelled further down). The file is modelled with the three places a written line can be in: the buffer
  of the open handle, the operating system's cache, and stable storage. \<^verbatim>\<open>file.write\<close> fills
  the buffer, \<^verbatim>\<open>f.flush()\<close> hands the buffer to the operating system, \<^verbatim>\<open>os.fsync\<close> forces what the
  operating system holds to stable storage, and leaving the \<^verbatim>\<open>with\<close> block closes the
  handle, which flushes and does not force.
\<close>

record log_file =
  stable :: "entry option list"
  cached :: "entry option list"
  buffered :: "entry option list"

definition write_entry_to :: "entry \<Rightarrow> log_file \<Rightarrow> log_file" where
  "write_entry_to e f = f\<lparr>buffered := buffered f @ [Some e]\<rparr>"

definition flush :: "log_file \<Rightarrow> log_file" where
  "flush f = f\<lparr>cached := cached f @ buffered f, buffered := []\<rparr>"

definition fsync :: "log_file \<Rightarrow> log_file" where
  "fsync f = f\<lparr>stable := stable f @ cached f, cached := []\<rparr>"

definition close_file :: "log_file \<Rightarrow> log_file" where
  "close_file f = flush f"

text \<open>What a reader of the file sees: everything handed to the operating system.\<close>

definition contents :: "log_file \<Rightarrow> entry option list" where
  "contents f = stable f @ cached f"

fun read_lines :: "nat \<Rightarrow> entry option list \<Rightarrow> (entry \<times> nat) list" where
  "read_lines n [] = []"
| "read_lines n (None # ls) = read_lines (Suc n) ls"
| "read_lines n (Some e # ls) = (e, n) # read_lines (Suc n) ls"

text \<open>\<^verbatim>\<open>read_manifest\<close>: the entries with their line numbers, counted from 1.\<close>

definition read_manifest :: "log_file \<Rightarrow> (entry \<times> nat) list" where
  "read_manifest f = read_lines 1 (contents f)"

section \<open>Reconciliation: \<^verbatim>\<open>analyze\<close>\<close>

text \<open>
  The local variables of \<^verbatim>\<open>analyze\<close>. The dictionary \<^verbatim>\<open>sync_request\<close> is the fields
  \<open>files\<close>, \<open>transfer_files\<close>, \<open>verified_files\<close> and \<open>request\<close>: \<open>request\<close> holds the keys
  that \<^verbatim>\<open>sync_request.update(entry._info)\<close> copies from a \<^verbatim>\<open>SyncRequest\<close>, and is \<open>None\<close>
  while the dictionary has none of them (reading one then raises \<^verbatim>\<open>KeyError\<close>). A
  dictionary is an association list in insertion order.
\<close>

record mismatch =
  expected :: int
  got :: int
  line_number :: nat

record analyze_state =
  sync_request_start :: "nat option"
  files :: "(path \<times> int) list"
  transfer_files :: "path set"
  verified_files :: "(path \<times> int) list"
  request :: "sync_info option"
  sync_count :: nat
  mismatched_filesizes :: "(path \<times> mismatch) list"

definition initial_state :: analyze_state where
  "initial_state =
     \<lparr>sync_request_start = None, files = [], transfer_files = {}, verified_files = [],
      request = None, sync_count = 0, mismatched_filesizes = []\<rparr>"

text \<open>The branch of \<^verbatim>\<open>SyncRequest\<close> (the check for an open epoch is commented out in the source).\<close>

definition analyze_sync_request :: "analyze_state \<Rightarrow> sync_info \<Rightarrow> nat \<Rightarrow> error + analyze_state" where
  "analyze_sync_request s r n =
     Inr (s\<lparr>sync_count := sync_count s + 1, sync_request_start := Some n, request := Some r\<rparr>)"

text \<open>The branch of \<^verbatim>\<open>TransferRequest\<close> and \<^verbatim>\<open>VerifyRequest\<close>; \<open>is_transfer\<close> tells which.\<close>

definition analyze_request :: "analyze_state \<Rightarrow> bool \<Rightarrow> path \<Rightarrow> int \<Rightarrow> nat \<Rightarrow> error + analyze_state" where
  "analyze_request s is_transfer fname size' n =
     (if sync_request_start s = None then Inl (InconsistentManifest (RequestBeforeSync n))
      else if map_of (verified_files s) fname = Some size' then Inr s
      else Inr (s\<lparr>files := AList.update fname size' (files s),
                  transfer_files :=
                    (if is_transfer then insert fname (transfer_files s) else transfer_files s)\<rparr>))"

text \<open>
  The branch of \<^verbatim>\<open>TransferVerified\<close>. \<open>local_size fname\<close> is the size on disk of
  \<^verbatim>\<open>local_dir / fname\<close>, \<open>None\<close> when \<^verbatim>\<open>stat\<close> raises.
\<close>

definition analyze_verified ::
  "(path \<Rightarrow> int option) \<Rightarrow> analyze_state \<Rightarrow> path \<Rightarrow> int \<Rightarrow> nat \<Rightarrow> error + analyze_state" where
  "analyze_verified local_size s fname size' n =
     (if sync_request_start s = None then Inl (InconsistentManifest (VerificationBeforeSync n))
      else if map_of (verified_files s) fname = Some size' then Inr s
      else case map_of (files s) fname of
        None \<Rightarrow> Inl (InconsistentManifest (VerifiedNotRequested fname))
      | Some anticipated \<Rightarrow>
          if anticipated \<noteq> size'
          then Inl (InconsistentManifest (VerifiedSizeDifferent size' fname anticipated))
          else (case local_size fname of
            None \<Rightarrow> Inl (FileNotFoundError fname)
          | Some on_disk \<Rightarrow>
              (case request s of
                 None \<Rightarrow>
                   Inl (KeyError (if fname \<in> transfer_files s then ''files_to_transfer''
                                  else ''files_to_verify''))
               | Some r \<Rightarrow>
                   Inr (s\<lparr>mismatched_filesizes :=
                            (if on_disk \<noteq> size'
                             then AList.update fname
                                    \<lparr>expected = size', got = on_disk, line_number = n\<rparr>
                                    (mismatched_filesizes s)
                             else AList.delete fname (mismatched_filesizes s)),
                          request :=
                            Some (if fname \<in> transfer_files s
                                  then r\<lparr>files_to_transfer := files_to_transfer r - 1,
                                         bytes_to_transfer := bytes_to_transfer r - size'\<rparr>
                                  else r\<lparr>files_to_verify := files_to_verify r - 1,
                                         bytes_to_verify := bytes_to_verify r - size'\<rparr>),
                          files := AList.delete fname (files s),
                          verified_files := AList.update fname size' (verified_files s)\<rparr>))))"

text \<open>
  The condition \<^verbatim>\<open>files_to_verify or bytes_to_verify or files or files_to_transfer or
  bytes_to_transfer\<close> on \<^verbatim>\<open>sync_request\<close>, used by the \<^verbatim>\<open>SyncDone\<close> branch and after the loop.
\<close>

definition work_remaining :: "analyze_state \<Rightarrow> error + bool" where
  "work_remaining s =
     (case request s of
        None \<Rightarrow> Inl (KeyError ''files_to_verify'')
      | Some r \<Rightarrow>
          Inr (files_to_verify r \<noteq> 0 \<or> bytes_to_verify r \<noteq> 0 \<or> files s \<noteq> []
               \<or> files_to_transfer r \<noteq> 0 \<or> bytes_to_transfer r \<noteq> 0))"

text \<open>The branch of \<^verbatim>\<open>SyncDone\<close>: it resets \<^verbatim>\<open>sync_request\<close> to a fresh dictionary.\<close>

definition analyze_sync_done :: "analyze_state \<Rightarrow> nat \<Rightarrow> error + analyze_state" where
  "analyze_sync_done s n =
     (if sync_request_start s = None then Inl (InconsistentManifest (RequestBeforeSync n))
      else case work_remaining s of
        Inl err \<Rightarrow> Inl err
      | Inr True \<Rightarrow> Inl (InconsistentManifest DoneWorkRemaining)
      | Inr False \<Rightarrow>
          Inr (s\<lparr>sync_request_start := None, files := [], transfer_files := {},
                 verified_files := [], request := None\<rparr>))"

text \<open>One iteration of the loop over \<^verbatim>\<open>read_manifest\<close>; other entries match no branch.\<close>

fun analyze_entry ::
  "(path \<Rightarrow> int option) \<Rightarrow> analyze_state \<Rightarrow> entry \<times> nat \<Rightarrow> error + analyze_state" where
  "analyze_entry local_size s (SyncRequest r, n) = analyze_sync_request s r n"
| "analyze_entry local_size s (TransferRequest fname size', n) = analyze_request s True fname size' n"
| "analyze_entry local_size s (VerifyRequest fname size', n) = analyze_request s False fname size' n"
| "analyze_entry local_size s (TransferVerified fname size' digest ts, n) =
     analyze_verified local_size s fname size' n"
| "analyze_entry local_size s (SyncDone ts, n) = analyze_sync_done s n"
| "analyze_entry local_size s (File fname size', n) = Inr s"
| "analyze_entry local_size s (Metadata fname size' digest, n) = Inr s"

text \<open>The loop: it stops at the first entry that raises.\<close>

fun replay ::
  "(path \<Rightarrow> int option) \<Rightarrow> analyze_state \<Rightarrow> (entry \<times> nat) list \<Rightarrow> error + analyze_state" where
  "replay local_size s [] = Inr s"
| "replay local_size s (e # es) =
     (case analyze_entry local_size s e of
        Inl err \<Rightarrow> Inl err
      | Inr s' \<Rightarrow> replay local_size s' es)"

text \<open>What \<^verbatim>\<open>analyze\<close> writes with \<^verbatim>\<open>logging.error\<close>, and what it prints when it returns.\<close>

datatype report =
    MismatchedFileSize path nat int int
  | SyncNotDone
  | FilesToTransfer int int
  | FilesToVerify int int
  | InconsistentFiles "(path \<times> int) list"

datatype verdict = SynchronizationDone | AllSynchronizationsDone

record analyze_result =
  outcome :: "error + verdict"
  reports :: "report list"
  manifest :: log_file

definition mismatch_report :: "path \<times> mismatch \<Rightarrow> report" where
  "mismatch_report m = MismatchedFileSize (fst m) (line_number (snd m)) (expected (snd m)) (got (snd m))"

text \<open>
  The code after the loop, on the state the loop ended in. \<open>now\<close> is the value of
  \<^verbatim>\<open>timestamp()\<close>.
\<close>

definition finalize :: "real \<Rightarrow> log_file \<Rightarrow> analyze_state \<Rightarrow> analyze_result" where
  "finalize now f s =
     (if mismatched_filesizes s \<noteq> []
      then \<lparr>outcome = Inl (InconsistentManifest (LocalSizesMismatch (length (mismatched_filesizes s)))),
            reports = map mismatch_report (mismatched_filesizes s), manifest = f\<rparr>
      else if sync_request_start s \<noteq> None
      then (case request s of
              None \<Rightarrow> \<lparr>outcome = Inl (KeyError ''files_to_verify''), reports = [], manifest = f\<rparr>
            | Some r \<Rightarrow>
                if work_remaining s = Inr True
                then \<lparr>outcome = Inl (InconsistentManifest WorkRemaining),
                      reports = [SyncNotDone,
                                 FilesToTransfer (files_to_transfer r) (bytes_to_transfer r),
                                 FilesToVerify (files_to_verify r) (bytes_to_verify r),
                                 InconsistentFiles (files s)],
                      manifest = f\<rparr>
                else \<lparr>outcome = Inr SynchronizationDone, reports = [],
                      manifest = close_file (write_entry_to (SyncDone now) f)\<rparr>)
      else if sync_count s > 0
      then \<lparr>outcome = Inr AllSynchronizationsDone, reports = [], manifest = f\<rparr>
      else \<lparr>outcome = Inl (InconsistentManifest NoSynchronization), reports = [], manifest = f\<rparr>)"

definition analyze :: "(path \<Rightarrow> int option) \<Rightarrow> real \<Rightarrow> log_file \<Rightarrow> analyze_result" where
  "analyze local_size now f =
     (case replay local_size initial_state (read_manifest f) of
        Inl err \<Rightarrow> \<lparr>outcome = Inl err, reports = [], manifest = f\<rparr>
      | Inr s \<Rightarrow> finalize now f s)"

section \<open>The diff of \<^verbatim>\<open>write_inner_dag\<close>\<close>

text \<open>
  An inventory is the dictionary from a path relative to the prefix to the size of the
  file, as \<^verbatim>\<open>parse_file_manifest\<close> returns it. \<^verbatim>\<open>d.get(k, default)\<close> is \<open>dict_get\<close>.
\<close>

type_synonym inventory = "(path \<times> int) list"

definition dict_get :: "('k \<times> 'v) list \<Rightarrow> 'k \<Rightarrow> 'v \<Rightarrow> 'v" where
  "dict_get d k dflt = (case map_of d k of None \<Rightarrow> dflt | Some v \<Rightarrow> v)"

definition TRANSFER_MANIFEST_FILE_NAME :: string where
  "TRANSFER_MANIFEST_FILE_NAME = ''transfer_manifest.txt''"

text \<open>
  The two inventories by role. \<open>local_files\<close> is the scan of the local directory; the
  transfer manifest is popped from it first (``never transfer the transfer manifest'').
  Pull copies from remote to local, push from local to remote.
\<close>

definition src_files :: "transfer_direction \<Rightarrow> inventory \<Rightarrow> inventory \<Rightarrow> inventory" where
  "src_files dir remote_files local_files =
     (if dir = PULL then remote_files
      else AList.delete [TRANSFER_MANIFEST_FILE_NAME] local_files)"

definition dest_files :: "transfer_direction \<Rightarrow> inventory \<Rightarrow> inventory \<Rightarrow> inventory" where
  "dest_files dir remote_files local_files =
     (if dir = PULL then AList.delete [TRANSFER_MANIFEST_FILE_NAME] local_files
      else remote_files)"

text \<open>
  A Python set is modelled by a list of its elements; only membership and \<^verbatim>\<open>sorted\<close>
  read it.
  \<^verbatim>\<open>files_to_transfer = {fname for fname, size in src_files.items()
                          if size != dest_files.get(fname, -1)}\<close>
\<close>

definition transfer_set :: "inventory \<Rightarrow> inventory \<Rightarrow> path list" where
  "transfer_set src dest =
     map fst (filter (\<lambda>(fname, size'). size' \<noteq> dict_get dest fname (- 1)) src)"

text \<open>
  \<^verbatim>\<open>files_verified\<close>: the names of the \<^verbatim>\<open>TransferVerified\<close> entries of the transfer manifest,
  whatever their sizes.
\<close>

fun verified_name :: "entry \<times> nat \<Rightarrow> path option" where
  "verified_name (TransferVerified fname size' digest ts, n) = Some fname"
| "verified_name (e, n) = None"

definition files_verified :: "(entry \<times> nat) list \<Rightarrow> path list" where
  "files_verified entries = List.map_filter verified_name entries"

text \<open>
  \<^verbatim>\<open>files_to_verify\<close>: the loop runs over \<^verbatim>\<open>remote_files\<close> in both directions (the source
  marks it ``TODO: rethink this logic for push vs. pull'').
\<close>

definition verify_set :: "inventory \<Rightarrow> path list \<Rightarrow> path list \<Rightarrow> path list" where
  "verify_set remote_files to_transfer verified =
     filter (\<lambda>fname. fname \<notin> set to_transfer \<and> fname \<notin> set verified) (map fst remote_files)"

text \<open>The two sets of the diff, as functions of what \<^verbatim>\<open>write_inner_dag\<close> reads.\<close>

definition diff_to_transfer :: "transfer_direction \<Rightarrow> inventory \<Rightarrow> inventory \<Rightarrow> path list" where
  "diff_to_transfer dir remote_files local_files =
     transfer_set (src_files dir remote_files local_files) (dest_files dir remote_files local_files)"

definition diff_to_verify ::
  "transfer_direction \<Rightarrow> inventory \<Rightarrow> inventory \<Rightarrow> (entry \<times> nat) list \<Rightarrow> path list" where
  "diff_to_verify dir remote_files local_files entries =
     verify_set remote_files (diff_to_transfer dir remote_files local_files) (files_verified entries)"

text \<open>\<^verbatim>\<open>sorted(s)\<close> of a set \<open>s\<close>.\<close>

definition sorted_set :: "path list \<Rightarrow> path list" where
  "sorted_set s = sort (remdups s)"

text \<open>
  \<^verbatim>\<open>sum(src_files[fname] for fname in fnames)\<close> and the request entries
  \<^verbatim>\<open>cls(name=fname, size=src_files[fname])\<close>: a name that is not a key of the source
  inventory raises \<^verbatim>\<open>KeyError\<close>.
\<close>

fun sum_sizes :: "inventory \<Rightarrow> path list \<Rightarrow> error + int" where
  "sum_sizes src [] = Inr 0"
| "sum_sizes src (fname # fnames) =
     (case map_of src fname of
        None \<Rightarrow> Inl (KeyError (str_path fname))
      | Some size' \<Rightarrow>
          (case sum_sizes src fnames of
             Inl err \<Rightarrow> Inl err
           | Inr rest \<Rightarrow> Inr (size' + rest)))"

fun request_entries :: "(path \<Rightarrow> int \<Rightarrow> entry) \<Rightarrow> inventory \<Rightarrow> path list \<Rightarrow> error + entry list" where
  "request_entries cls src [] = Inr []"
| "request_entries cls src (fname # fnames) =
     (case map_of src fname of
        None \<Rightarrow> Inl (KeyError (str_path fname))
      | Some size' \<Rightarrow>
          (case request_entries cls src fnames of
             Inl err \<Rightarrow> Inl err
           | Inr es \<Rightarrow> Inr (cls fname size' # es)))"

text \<open>What \<^verbatim>\<open>write_inner_dag\<close> hands to the inner DAG: the two sorted lists and their work items.\<close>

record dag_plan =
  to_transfer :: "path list"
  to_verify :: "path list"
  transfer_cmd_info :: "cmd_info list"
  verify_cmd_info :: "cmd_info list"

text \<open>
  \<^verbatim>\<open>write_inner_dag\<close> from the two parsed inventories on: the diff, the sorted lists, the
  work items, the byte totals and the entries appended to the transfer manifest in one
  \<^verbatim>\<open>with\<close> block. An exception leaves the manifest as it was. \<open>now\<close> is \<^verbatim>\<open>timestamp()\<close>.
\<close>

definition write_inner_dag ::
  "transfer_direction \<Rightarrow> path \<Rightarrow> inventory \<Rightarrow> path \<Rightarrow> inventory \<Rightarrow> real \<Rightarrow> log_file
   \<Rightarrow> error + dag_plan \<times> log_file" where
  "write_inner_dag dir remote_prefix' remote_files local_prefix' local_files now f =
     (let transfer_manifest_path = path_join local_prefix' [TRANSFER_MANIFEST_FILE_NAME];
          src = src_files dir remote_files local_files;
          transfer = sorted_set (diff_to_transfer dir remote_files local_files);
          verify = sorted_set (diff_to_verify dir remote_files local_files (read_manifest f));
          plan = \<lparr>to_transfer = transfer, to_verify = verify,
                  transfer_cmd_info =
                    make_cmd_info transfer remote_prefix' local_prefix' transfer_manifest_path,
                  verify_cmd_info =
                    make_cmd_info verify remote_prefix' local_prefix' transfer_manifest_path\<rparr>
      in case sum_sizes src transfer of
           Inl err \<Rightarrow> Inl err
         | Inr bytes_transfer \<Rightarrow>
             (case sum_sizes src verify of
                Inl err \<Rightarrow> Inl err
              | Inr bytes_verify \<Rightarrow>
                  (case request_entries TransferRequest src transfer of
                     Inl err \<Rightarrow> Inl err
                   | Inr transfer_requests \<Rightarrow>
                       (case request_entries VerifyRequest src verify of
                          Inl err \<Rightarrow> Inl err
                        | Inr verify_requests \<Rightarrow>
                            Inr (plan,
                                 close_file
                                   (fold write_entry_to
                                      (SyncRequest
                                         \<lparr>direction = dir, remote_prefix = remote_prefix',
                                          files_at_source = int (length src),
                                          files_to_transfer = int (length transfer),
                                          bytes_to_transfer = bytes_transfer,
                                          files_to_verify = int (length verify),
                                          bytes_to_verify = bytes_verify,
                                          timestamp = now\<rparr>
                                       # transfer_requests @ verify_requests)
                                      f))))))"

section \<open>Verification of one file: \<^verbatim>\<open>verify_metadata\<close>\<close>

text \<open>
  The files of a directory tree are a partial map from paths to contents; a content is
  a list of bytes.
\<close>

type_synonym bytes = string

type_synonym filesystem = "path \<Rightarrow> bytes option"

text \<open>\<^verbatim>\<open>p.relative_to(prefix)\<close> raises \<^verbatim>\<open>ValueError\<close> unless \<open>p\<close> starts with \<open>prefix\<close>.\<close>

definition relative_to :: "path \<Rightarrow> path \<Rightarrow> error + path" where
  "relative_to p prefix =
     (if take (length prefix) p = prefix then Inr (drop (length prefix) p) else Inl ValueError)"

text \<open>
  \<^verbatim>\<open>verify_metadata\<close>, given the entry that \<^verbatim>\<open>read_metadata_file\<close> read. \<open>hexdigest\<close> is the
  SHA-1 digest of a content in hexadecimal, \<open>now\<close> is \<^verbatim>\<open>timestamp()\<close>. On success the
  \<^verbatim>\<open>TransferVerified\<close> entry is written, flushed and forced inside the \<^verbatim>\<open>with\<close> block. (The
  removal of the metadata, \<^verbatim>\<open>.out\<close> and \<^verbatim>\<open>.err\<close> files that follows touches no file modelled
  here.)
\<close>

definition verify_metadata ::
  "(bytes \<Rightarrow> string) \<Rightarrow> real \<Rightarrow> path \<Rightarrow> path \<Rightarrow> entry \<Rightarrow> filesystem \<Rightarrow> log_file
   \<Rightarrow> error + log_file" where
  "verify_metadata hexdigest now local_prefix' local_name metadata_entry fs f =
     (case metadata_entry of
        Metadata remote_name remote_size remote_digest \<Rightarrow>
          (case fs local_name of
             None \<Rightarrow> Inl (FileNotFoundError local_name)
           | Some data \<Rightarrow>
               if remote_size \<noteq> int (length data) then Inl VerificationFailed
               else if remote_digest \<noteq> hexdigest data then Inl VerificationFailed
               else (case relative_to local_name local_prefix' of
                       Inl err \<Rightarrow> Inl err
                     | Inr name \<Rightarrow>
                         Inr (close_file (fsync (flush (write_entry_to
                                (TransferVerified name remote_size remote_digest now) f))))))
      | _ \<Rightarrow> Inl InvalidManifestEntry)"

section \<open>Copying with a hash: \<^verbatim>\<open>copy_with_hash\<close>\<close>

definition MB :: nat where
  "MB = 2 ^ 20"

text \<open>
  \<^verbatim>\<open>PurePath.name\<close>, \<^verbatim>\<open>PurePath.suffix\<close> and \<^verbatim>\<open>PurePath.with_suffix\<close> of pathlib. The name is
  the last part, empty for the root and for the empty path; the suffix of a name starts
  at its last dot, unless that dot is the first or the last character; \<^verbatim>\<open>with_suffix\<close>
  replaces the suffix of the name, or appends to a name that has none.
\<close>

definition path_name :: "path \<Rightarrow> string" where
  "path_name p = (if p = [] \<or> p = [''/''] \<or> p = [''//''] then [] else last p)"

fun rfind_from :: "char \<Rightarrow> string \<Rightarrow> nat \<Rightarrow> nat option \<Rightarrow> nat option" where
  "rfind_from c [] i found = found"
| "rfind_from c (x # xs) i found = rfind_from c xs (Suc i) (if x = c then Some i else found)"

definition rfind :: "char \<Rightarrow> string \<Rightarrow> nat option" where
  "rfind c s = rfind_from c s 0 None"

definition name_suffix :: "string \<Rightarrow> string" where
  "name_suffix name =
     (case rfind CHR ''.'' name of
        None \<Rightarrow> []
      | Some i \<Rightarrow> if 0 < i \<and> i < length name - 1 then drop i name else [])"

definition with_suffix :: "path \<Rightarrow> string \<Rightarrow> error + path" where
  "with_suffix p sfx =
     (if CHR ''/'' \<in> set sfx \<or> (sfx \<noteq> [] \<and> hd sfx \<noteq> CHR ''.'') \<or> sfx = ''.''
      then Inl ValueError
      else if path_name p = [] then Inl ValueError
      else Inr (butlast p @
                [take (length (path_name p) - length (name_suffix (path_name p))) (path_name p)
                 @ sfx]))"

text \<open>
  The loop of \<^verbatim>\<open>copy_with_hash\<close>: \<open>buf\<close> is the block just read, \<open>rest\<close> what the source still
  holds, \<open>written\<close> what has been written to the temporary file, which is also what the
  hasher has been fed. The result has the content of the temporary file after each
  \<^verbatim>\<open>dest.write\<close>.
\<close>

function copy_loop ::
  "bytes \<Rightarrow> bytes \<Rightarrow> bytes \<Rightarrow> nat \<Rightarrow> bytes list \<Rightarrow> bytes \<times> nat \<times> bytes list" where
  "copy_loop buf rest written byte_count after_writes =
     (if length buf > 0
      then copy_loop (take MB rest) (drop MB rest) (written @ buf)
             (byte_count + length (take MB rest)) (after_writes @ [written @ buf])
      else (written, byte_count, after_writes))"
  by pat_completeness auto
termination
  by (relation "measure (\<lambda>(buf, rest, written, byte_count, after_writes). length buf + length rest)")
     (auto simp: min_def)

declare copy_loop.simps [simp del]

text \<open>
  A run of \<^verbatim>\<open>copy_with_hash\<close>: the states of the file system an interruption before the
  rename can leave behind (before the temporary file is opened, after it is opened for
  writing, which truncates it, and after each write), the state after the rename, the
  bytes fed to the hasher and the byte count returned.
\<close>

record copy_run =
  interrupted :: "filesystem list"
  completed :: filesystem
  hashed :: bytes
  copied :: nat

definition copy_with_hash :: "filesystem \<Rightarrow> path \<Rightarrow> path \<Rightarrow> error + copy_run" where
  "copy_with_hash fs src_path dest_path =
     (case with_suffix dest_path ''.tmp'' of
        Inl err \<Rightarrow> Inl err
      | Inr tmp_path \<Rightarrow>
          (case fs src_path of
             None \<Rightarrow> Inl (FileNotFoundError src_path)
           | Some size_checked \<Rightarrow>
               (let opened = fs(tmp_path \<mapsto> []);
                    data = (case opened src_path of None \<Rightarrow> [] | Some d \<Rightarrow> d);
                    run = copy_loop (take MB data) (drop MB data) [] (length (take MB data)) [];
                    states = opened # map (\<lambda>c. opened(tmp_path \<mapsto> c)) (snd (snd run));
                    synced = last states
                in Inr \<lparr>interrupted = fs # states,
                        completed = (synced(tmp_path := None))(dest_path := synced tmp_path),
                        hashed = fst run,
                        copied = fst (snd run)\<rparr>)))"

section \<open>The line format: \<^verbatim>\<open>__str__\<close> and \<^verbatim>\<open>parse_manifest_entry\<close>\<close>

subsection \<open>Tags\<close>

text \<open>
  \<^verbatim>\<open>camel_to_upper_snake\<close> cuts a class name where the regular expression
  \<^verbatim>\<open>.+?(?:(?<=[a-z])(?=[A-Z])|(?<=[A-Z])(?=[A-Z][a-z])|$)\<close> ends a match: between a lower
  case and an upper case letter, and between two upper case letters the second of which a
  lower case letter follows. The pieces are put in upper case and joined by \<^verbatim>\<open>_\<close>.
\<close>

definition is_lower :: "char \<Rightarrow> bool" where
  "is_lower c = (CHR ''a'' \<le> c \<and> c \<le> CHR ''z'')"

definition is_upper :: "char \<Rightarrow> bool" where
  "is_upper c = (CHR ''A'' \<le> c \<and> c \<le> CHR ''Z'')"

definition upper :: "char \<Rightarrow> char" where
  "upper c = (if is_lower c then char_of (of_char c - (32::nat)) else c)"

definition camel_boundary :: "char \<Rightarrow> char \<Rightarrow> string \<Rightarrow> bool" where
  "camel_boundary c d cs =
     ((is_lower c \<and> is_upper d)
      \<or> (is_upper c \<and> is_upper d \<and> (case cs of [] \<Rightarrow> False | e # _ \<Rightarrow> is_lower e)))"

fun split_camel :: "string \<Rightarrow> string list" where
  "split_camel [] = []"
| "split_camel [c] = [[c]]"
| "split_camel (c # d # cs) =
     (if camel_boundary c d cs then [c] # split_camel (d # cs)
      else (case split_camel (d # cs) of [] \<Rightarrow> [[c]] | w # ws \<Rightarrow> (c # w) # ws))"

fun join_with :: "string \<Rightarrow> string list \<Rightarrow> string" where
  "join_with sep [] = []"
| "join_with sep [w] = w"
| "join_with sep (w # v # ws) = w @ sep @ join_with sep (v # ws)"

definition camel_to_upper_snake :: "string \<Rightarrow> string" where
  "camel_to_upper_snake text = join_with ''_'' (map (map upper) (split_camel text))"

text \<open>
  The descendants of \<^verbatim>\<open>ManifestEntry\<close>: the four abstract classes of shared fields and the
  seven concrete classes. \<^verbatim>\<open>ENTRY_TYPE_TO_CLASS\<close> maps the tag of each to the class.
\<close>

datatype entry_class =
    CName | CSize | CDigest | CTimestamp
  | CTransferRequest | CVerifyRequest | CTransferVerified | CSyncRequest | CSyncDone
  | CFile | CMetadata

fun class_name :: "entry_class \<Rightarrow> string" where
  "class_name CName = ''Name''"
| "class_name CSize = ''Size''"
| "class_name CDigest = ''Digest''"
| "class_name CTimestamp = ''Timestamp''"
| "class_name CTransferRequest = ''TransferRequest''"
| "class_name CVerifyRequest = ''VerifyRequest''"
| "class_name CTransferVerified = ''TransferVerified''"
| "class_name CSyncRequest = ''SyncRequest''"
| "class_name CSyncDone = ''SyncDone''"
| "class_name CFile = ''File''"
| "class_name CMetadata = ''Metadata''"

definition descendants :: "entry_class list" where
  "descendants =
     [CName, CDigest, CTransferVerified, CMetadata, CTransferRequest, CVerifyRequest, CFile,
      CSize, CTimestamp, CSyncRequest, CSyncDone]"

definition ENTRY_TYPE_TO_CLASS :: "(string \<times> entry_class) list" where
  "ENTRY_TYPE_TO_CLASS = map (\<lambda>cls. (camel_to_upper_snake (class_name cls), cls)) descendants"

fun class_of :: "entry \<Rightarrow> entry_class" where
  "class_of (TransferRequest fname size') = CTransferRequest"
| "class_of (VerifyRequest fname size') = CVerifyRequest"
| "class_of (TransferVerified fname size' digest ts) = CTransferVerified"
| "class_of (SyncRequest r) = CSyncRequest"
| "class_of (SyncDone ts) = CSyncDone"
| "class_of (File fname size') = CFile"
| "class_of (Metadata fname size' digest) = CMetadata"

text \<open>The property \<^verbatim>\<open>type\<close> of an entry.\<close>

definition entry_type :: "entry \<Rightarrow> string" where
  "entry_type e = camel_to_upper_snake (class_name (class_of e))"

subsection \<open>JSON values and the Python built-ins\<close>

datatype json =
    JNull
  | JBool bool
  | JInt int
  | JFloat real
  | JString string
  | JArray "json list"
  | JObject "(string \<times> json) list"

text \<open>
  The library functions the line format rests on are parameters: \<^verbatim>\<open>json.dumps\<close> and
  \<^verbatim>\<open>json.loads\<close> (which raises \<^verbatim>\<open>JSONDecodeError\<close> on a text that is not JSON), and \<^verbatim>\<open>int\<close>
  and \<^verbatim>\<open>float\<close> on a string. A timestamp is a finite number of seconds.
\<close>

record python =
  dumps :: "json \<Rightarrow> string"
  loads :: "string \<Rightarrow> error + json"
  int_of_str :: "string \<Rightarrow> int option"
  float_of_str :: "string \<Rightarrow> real option"

text \<open>
  \<^verbatim>\<open>Path(s)\<close>: the parts between slashes, without the empty ones and the dots; a path that
  starts with a slash has the root as its first part (two slashes exactly are a root of
  their own).
\<close>

fun split_on :: "char \<Rightarrow> string \<Rightarrow> string list" where
  "split_on sep [] = [[]]"
| "split_on sep (c # cs) =
     (if c = sep then [] # split_on sep cs
      else (case split_on sep cs of [] \<Rightarrow> [[c]] | w # ws \<Rightarrow> (c # w) # ws))"

definition path_root :: "string \<Rightarrow> string list" where
  "path_root s =
     (if take 1 s \<noteq> ''/'' then []
      else if take 2 s = ''//'' \<and> take 3 s \<noteq> ''///'' then [''//'']
      else [''/''])"

definition parse_path :: "string \<Rightarrow> path" where
  "parse_path s = path_root s @ filter (\<lambda>part. part \<noteq> [] \<and> part \<noteq> ''.'') (split_on CHR ''/'' s)"

text \<open>\<^verbatim>\<open>Path(v)\<close>, \<^verbatim>\<open>int(v)\<close> and \<^verbatim>\<open>float(v)\<close> of a value read from JSON.\<close>

fun to_path :: "json \<Rightarrow> error + path" where
  "to_path (JString s) = Inr (parse_path s)"
| "to_path v = Inl TypeError"

fun to_int :: "python \<Rightarrow> json \<Rightarrow> error + int" where
  "to_int py (JInt n) = Inr n"
| "to_int py (JBool b) = Inr (if b then 1 else 0)"
| "to_int py (JFloat x) = Inr (if x < 0 then \<lceil>x\<rceil> else \<lfloor>x\<rfloor>)"
| "to_int py (JString s) =
     (case int_of_str py s of None \<Rightarrow> Inl ValueError | Some n \<Rightarrow> Inr n)"
| "to_int py v = Inl TypeError"

fun to_float :: "python \<Rightarrow> json \<Rightarrow> error + real" where
  "to_float py (JFloat x) = Inr x"
| "to_float py (JInt n) = Inr (of_int n)"
| "to_float py (JBool b) = Inr (if b then 1 else 0)"
| "to_float py (JString s) =
     (case float_of_str py s of None \<Rightarrow> Inl ValueError | Some x \<Rightarrow> Inr x)"
| "to_float py v = Inl TypeError"

text \<open>
  The fields the source keeps as they were read (the digest, the direction, the counters of
  a \<^verbatim>\<open>SyncRequest\<close>) have the types of the data model here. For a value of another type the
  source builds an entry that this model has no value for: the result is then \<open>None\<close>.
\<close>

fun as_string :: "json \<Rightarrow> string option" where
  "as_string (JString s) = Some s"
| "as_string v = None"

fun as_int :: "json \<Rightarrow> int option" where
  "as_int (JInt n) = Some n"
| "as_int v = None"

definition direction_value :: "transfer_direction \<Rightarrow> string" where
  "direction_value d = (case d of PULL \<Rightarrow> ''pull'' | PUSH \<Rightarrow> ''push'')"

fun as_direction :: "json \<Rightarrow> transfer_direction option" where
  "as_direction (JString s) =
     (if s = ''pull'' then Some PULL else if s = ''push'' then Some PUSH else None)"
| "as_direction v = None"

subsection \<open>Serialising\<close>

text \<open>
  \<^verbatim>\<open>to_json\<close>: the fields in the order of \<^verbatim>\<open>keys\<close>, paths as their strings. The direction is
  a string enumeration and is written as its value.
\<close>

fun to_json :: "entry \<Rightarrow> (string \<times> json) list" where
  "to_json (TransferRequest fname size') =
     [(''name'', JString (str_path fname)), (''size'', JInt size')]"
| "to_json (VerifyRequest fname size') =
     [(''name'', JString (str_path fname)), (''size'', JInt size')]"
| "to_json (TransferVerified fname size' digest ts) =
     [(''name'', JString (str_path fname)), (''size'', JInt size'),
      (''digest'', JString digest), (''timestamp'', JFloat ts)]"
| "to_json (SyncRequest r) =
     [(''direction'', JString (direction_value (direction r))),
      (''remote_prefix'', JString (str_path (remote_prefix r))),
      (''files_at_source'', JInt (files_at_source r)),
      (''files_to_transfer'', JInt (files_to_transfer r)),
      (''bytes_to_transfer'', JInt (bytes_to_transfer r)),
      (''files_to_verify'', JInt (files_to_verify r)),
      (''bytes_to_verify'', JInt (bytes_to_verify r)),
      (''timestamp'', JFloat (timestamp r))]"
| "to_json (SyncDone ts) = [(''timestamp'', JFloat ts)]"
| "to_json (File fname size') =
     [(''name'', JString (str_path fname)), (''size'', JInt size')]"
| "to_json (Metadata fname size' digest) =
     [(''name'', JString (str_path fname)), (''size'', JInt size'),
      (''digest'', JString digest)]"

text \<open>\<^verbatim>\<open>__str__\<close>: \<^verbatim>\<open>"{} {}".format(self.type, json.dumps(self.to_json()))\<close>.\<close>

definition entry_str :: "python \<Rightarrow> entry \<Rightarrow> string" where
  "entry_str py e = entry_type e @ '' '' @ dumps py (JObject (to_json e))"

subsection \<open>Parsing\<close>

text \<open>
  The white space of \<^verbatim>\<open>str.strip\<close> and \<^verbatim>\<open>str.split\<close> among the ASCII characters: tab, line
  feed, vertical tab, form feed, carriage return, the four separators and the space.
\<close>

definition is_space :: "char \<Rightarrow> bool" where
  "is_space c = (c \<in> {CHR 0x09, CHR 0x0A, CHR 0x0B, CHR 0x0C, CHR 0x0D,
                       CHR 0x1C, CHR 0x1D, CHR 0x1E, CHR 0x1F, CHR '' ''})"

definition strip :: "string \<Rightarrow> string" where
  "strip s = rev (dropWhile is_space (rev (dropWhile is_space s)))"

text \<open>
  \<^verbatim>\<open>s.split(maxsplit=1)\<close>: the first word and, if anything but white space follows it, the
  rest of the string from its first character that is not white space.
\<close>

definition split_maxsplit1 :: "string \<Rightarrow> string list" where
  "split_maxsplit1 s =
     (let s1 = dropWhile is_space s;
          word = takeWhile (\<lambda>c. \<not> is_space c) s1;
          rest = dropWhile is_space (dropWhile (\<lambda>c. \<not> is_space c) s1)
      in if s1 = [] then [] else if rest = [] then [word] else [word, rest])"

text \<open>
  \<^verbatim>\<open>ManifestEntry.__init__\<close>: fewer keys than expected (a proper subset) raise
  \<^verbatim>\<open>InvalidManifestEntry\<close>; otherwise \<^verbatim>\<open>{k: info[k] for k in self.keys}\<close> raises \<^verbatim>\<open>KeyError\<close> at
  the first expected key that is missing; keys that are not expected are dropped with a
  warning.
\<close>

definition check_keys :: "string list \<Rightarrow> (string \<times> json) list \<Rightarrow> error option" where
  "check_keys keys info =
     (if set (map fst info) \<subset> set keys then Some InvalidManifestEntry
      else (case filter (\<lambda>k. map_of info k = None) keys of
              [] \<Rightarrow> None
            | k # _ \<Rightarrow> Some (KeyError k)))"

text \<open>\<open>field info k\<close> is \<^verbatim>\<open>info[k]\<close> for a key that \<open>check_keys\<close> has found.\<close>

definition field :: "(string \<times> json) list \<Rightarrow> string \<Rightarrow> json" where
  "field info k = (case map_of info k of None \<Rightarrow> JNull | Some v \<Rightarrow> v)"

definition and_then :: "'e + 'a \<Rightarrow> ('a \<Rightarrow> 'e + 'b) \<Rightarrow> 'e + 'b" where
  "and_then r f = (case r of Inl err \<Rightarrow> Inl err | Inr v \<Rightarrow> f v)"

definition typed :: "'a option \<Rightarrow> ('a \<Rightarrow> 'b option) \<Rightarrow> 'b option" where
  "typed r f = (case r of None \<Rightarrow> None | Some v \<Rightarrow> f v)"

text \<open>
  The keys of each class, and the constructors. The conversions run when the chain of
  \<^verbatim>\<open>super().__init__\<close> calls returns, so in the reverse of the method resolution order:
  \<^verbatim>\<open>float(timestamp)\<close>, then \<^verbatim>\<open>int(size)\<close>, then \<^verbatim>\<open>Path(name)\<close>, and for a \<^verbatim>\<open>SyncRequest\<close>
  \<^verbatim>\<open>Path(remote_prefix)\<close> last. An abstract class cannot be instantiated.
\<close>

fun keys :: "entry_class \<Rightarrow> string list" where
  "keys CTransferRequest = [''name'', ''size'']"
| "keys CVerifyRequest = [''name'', ''size'']"
| "keys CTransferVerified = [''name'', ''size'', ''digest'', ''timestamp'']"
| "keys CSyncRequest =
     [''direction'', ''remote_prefix'', ''files_at_source'', ''files_to_transfer'',
      ''bytes_to_transfer'', ''files_to_verify'', ''bytes_to_verify'', ''timestamp'']"
| "keys CSyncDone = [''timestamp'']"
| "keys CFile = [''name'', ''size'']"
| "keys CMetadata = [''name'', ''size'', ''digest'']"
| "keys cls = []"

definition name_size ::
  "python \<Rightarrow> (string \<times> json) list \<Rightarrow> (path \<Rightarrow> int \<Rightarrow> entry option) \<Rightarrow> error + entry option" where
  "name_size py info build =
     and_then (to_int py (field info ''size'')) (\<lambda>size'.
     and_then (to_path (field info ''name'')) (\<lambda>fname.
     Inr (build fname size')))"

fun convert :: "python \<Rightarrow> entry_class \<Rightarrow> (string \<times> json) list \<Rightarrow> error + entry option" where
  "convert py CTransferRequest info =
     name_size py info (\<lambda>fname size'. Some (TransferRequest fname size'))"
| "convert py CVerifyRequest info =
     name_size py info (\<lambda>fname size'. Some (VerifyRequest fname size'))"
| "convert py CFile info =
     name_size py info (\<lambda>fname size'. Some (File fname size'))"
| "convert py CMetadata info =
     name_size py info (\<lambda>fname size'.
       typed (as_string (field info ''digest'')) (\<lambda>digest.
       Some (Metadata fname size' digest)))"
| "convert py CTransferVerified info =
     and_then (to_float py (field info ''timestamp'')) (\<lambda>ts.
     name_size py info (\<lambda>fname size'.
       typed (as_string (field info ''digest'')) (\<lambda>digest.
       Some (TransferVerified fname size' digest ts))))"
| "convert py CSyncDone info =
     and_then (to_float py (field info ''timestamp'')) (\<lambda>ts. Inr (Some (SyncDone ts)))"
| "convert py CSyncRequest info =
     and_then (to_float py (field info ''timestamp'')) (\<lambda>ts.
     and_then (to_path (field info ''remote_prefix'')) (\<lambda>prefix.
     Inr (typed (as_direction (field info ''direction'')) (\<lambda>dir.
          typed (as_int (field info ''files_at_source'')) (\<lambda>at_source.
          typed (as_int (field info ''files_to_transfer'')) (\<lambda>ft.
          typed (as_int (field info ''bytes_to_transfer'')) (\<lambda>bt.
          typed (as_int (field info ''files_to_verify'')) (\<lambda>fv.
          typed (as_int (field info ''bytes_to_verify'')) (\<lambda>bv.
          Some (SyncRequest
                 \<lparr>direction = dir, remote_prefix = prefix, files_at_source = at_source,
                  files_to_transfer = ft, bytes_to_transfer = bt, files_to_verify = fv,
                  bytes_to_verify = bv, timestamp = ts\<rparr>))))))))))"
| "convert py cls info = Inl TypeError"

definition is_abstract :: "entry_class \<Rightarrow> bool" where
  "is_abstract cls = (cls \<in> {CName, CSize, CDigest, CTimestamp})"

text \<open>\<^verbatim>\<open>cls(**info)\<close>: \<^verbatim>\<open>info\<close> must be a JSON object.\<close>

definition construct :: "python \<Rightarrow> entry_class \<Rightarrow> json \<Rightarrow> error + entry option" where
  "construct py cls j =
     (case j of
        JObject info \<Rightarrow>
          if is_abstract cls then Inl TypeError
          else (case check_keys (keys cls) info of
                  Some err \<Rightarrow> Inl err
                | None \<Rightarrow> convert py cls info)
      | _ \<Rightarrow> Inl TypeError)"

text \<open>
  \<^verbatim>\<open>parse_manifest_entry\<close>: strip, split into the tag and the rest (unpacking anything but
  two words raises \<^verbatim>\<open>ValueError\<close>), look the class up (\<^verbatim>\<open>KeyError\<close> for an unknown tag), read
  the rest as JSON, construct.
\<close>

definition parse_manifest_entry :: "python \<Rightarrow> string \<Rightarrow> error + entry option" where
  "parse_manifest_entry py line =
     (case split_maxsplit1 (strip line) of
        [type', info] \<Rightarrow>
          (case map_of ENTRY_TYPE_TO_CLASS type' of
             None \<Rightarrow> Inl (KeyError type')
           | Some cls \<Rightarrow> and_then (loads py info) (construct py cls))
      | _ \<Rightarrow> Inl ValueError)"

subsection \<open>Well-formed entries\<close>

text \<open>
  The parts of a path that pathlib builds are not empty, are not a dot and contain no
  slash; only the first part can be a root. An entry is well formed when its paths are.
\<close>

definition valid_part :: "string \<Rightarrow> bool" where
  "valid_part part = (part \<noteq> [] \<and> part \<noteq> ''.'' \<and> CHR ''/'' \<notin> set part)"

definition valid_path :: "path \<Rightarrow> bool" where
  "valid_path p =
     (case p of
        [] \<Rightarrow> True
      | r # ps \<Rightarrow> (r = ''/'' \<or> r = ''//'' \<or> valid_part r) \<and> list_all valid_part ps)"

fun valid_entry :: "entry \<Rightarrow> bool" where
  "valid_entry (TransferRequest fname size') = valid_path fname"
| "valid_entry (VerifyRequest fname size') = valid_path fname"
| "valid_entry (TransferVerified fname size' digest ts) = valid_path fname"
| "valid_entry (SyncRequest r) = valid_path (remote_prefix r)"
| "valid_entry (SyncDone ts) = True"
| "valid_entry (File fname size') = valid_path fname"
| "valid_entry (Metadata fname size' digest) = valid_path fname"

section \<open>Example data\<close>

text \<open>
  A \<^verbatim>\<open>SyncRequest\<close> of a pull from \<^verbatim>\<open>/remote\<close> with the given numbers of files and bytes
  to transfer and to verify, used by the examples below.
\<close>

definition epoch_request :: "int \<Rightarrow> int \<Rightarrow> int \<Rightarrow> int \<Rightarrow> sync_info" where
  "epoch_request ft bt fv bv =
     \<lparr>direction = PULL, remote_prefix = [''/'', ''remote''], files_at_source = ft + fv,
      files_to_transfer = ft, bytes_to_transfer = bt, files_to_verify = fv,
      bytes_to_verify = bv, timestamp = 0\<rparr>"

text \<open>A \<^verbatim>\<open>TransferRequest\<close> (\<open>True\<close>) or a \<^verbatim>\<open>VerifyRequest\<close> (\<open>False\<close>) for a file.\<close>

definition request_entry :: "bool \<Rightarrow> path \<Rightarrow> int \<Rightarrow> entry" where
  "request_entry is_transfer fname size' =
     (if is_transfer then TransferRequest fname size' else VerifyRequest fname size')"

text \<open>
  The text \<^verbatim>\<open>{"timestamp": 7.0}\<close>, and as much of the \<^verbatim>\<open>json\<close> module as the example of a
  \<^verbatim>\<open>SyncDone\<close> at time 7 needs: the text is what \<^verbatim>\<open>dumps\<close> writes and the only text \<^verbatim>\<open>loads\<close>
  accepts.
\<close>

definition example_text :: string where
  "example_text = ''{'' @ [CHR 0x22] @ ''timestamp'' @ [CHR 0x22] @ '': 7.0}''"

definition example_python :: python where
  "example_python =
     \<lparr>dumps = (\<lambda>j. example_text),
      loads = (\<lambda>s. if s = example_text then Inr (JObject [(''timestamp'', JFloat 7)])
                   else Inl JSONDecodeError),
      int_of_str = (\<lambda>s. None),
      float_of_str = (\<lambda>s. None)\<rparr>"

section \<open>Properties of the reconciliation replay\<close>

lemmas analyze_simps =
  analyze_sync_request_def analyze_request_def analyze_verified_def work_remaining_def
  analyze_sync_done_def

lemma replay_append:
  "replay ls s (xs @ ys) =
     (case replay ls s xs of Inl err \<Rightarrow> Inl err | Inr s' \<Rightarrow> replay ls s' ys)"
  by (induction xs arbitrary: s) (auto split: sum.splits)

text \<open>
  The keys of a \<^verbatim>\<open>SyncRequest\<close> are in \<^verbatim>\<open>sync_request\<close> exactly while
  \<^verbatim>\<open>sync_request_start\<close> is set, so no read of a counter raises \<^verbatim>\<open>KeyError\<close>.
\<close>

lemma analyze_entry_request_open:
  assumes "analyze_entry ls s e = Inr s'"
    and "request s = None \<longleftrightarrow> sync_request_start s = None"
  shows "request s' = None \<longleftrightarrow> sync_request_start s' = None"
  using assms
  by (cases "(ls, s, e)" rule: analyze_entry.cases)
     (auto simp: analyze_simps split: if_splits option.splits sum.splits bool.splits)

lemma replay_request_open_from:
  assumes "replay ls s es = Inr s'"
    and "request s = None \<longleftrightarrow> sync_request_start s = None"
  shows "request s' = None \<longleftrightarrow> sync_request_start s' = None"
  using assms
proof (induction es arbitrary: s)
  case Nil
  then show ?case by simp
next
  case (Cons e es)
  then obtain s1 where s1: "analyze_entry ls s e = Inr s1" and r: "replay ls s1 es = Inr s'"
    by (auto split: sum.splits)
  show ?case by (rule Cons.IH[OF r analyze_entry_request_open[OF s1 Cons.prems(2)]])
qed

lemma replay_request_open:
  "replay ls initial_state es = Inr s \<Longrightarrow> (request s = None \<longleftrightarrow> sync_request_start s = None)"
  by (rule replay_request_open_from) (auto simp: initial_state_def)

text \<open>
  C4. Let a log replay without error up to a \<^verbatim>\<open>TransferVerified\<close> entry for \<open>fname\<close> with
  size \<open>size'\<close>. If no epoch is open there, or if the entry is not the no-op of an already
  verified file and \<open>fname\<close> is not among the outstanding files or is outstanding with
  another size, then the replay of the whole log fails with \<^verbatim>\<open>InconsistentManifest\<close> at
  that entry: "verification before sync started", "verified but not requested" or
  "size different than anticipated", in the order the source checks them.
\<close>

theorem transfer_verified_inconsistent:
  assumes "replay ls initial_state pre = Inr s"
    and "sync_request_start s = None \<or>
         (map_of (verified_files s) fname \<noteq> Some size' \<and>
          (map_of (files s) fname = None \<or>
           (\<exists>a. map_of (files s) fname = Some a \<and> a \<noteq> size')))"
  shows "replay ls initial_state (pre @ (TransferVerified fname size' digest ts, n) # post) =
         Inl (InconsistentManifest
               (if sync_request_start s = None then VerificationBeforeSync n
                else case map_of (files s) fname of
                  None \<Rightarrow> VerifiedNotRequested fname
                | Some a \<Rightarrow> VerifiedSizeDifferent size' fname a))"
  using assms by (auto simp: replay_append analyze_verified_def)

theorem transfer_verified_inconsistent_witness:
  "replay (\<lambda>_. None) initial_state
     ([(SyncRequest (epoch_request 1 50 0 0), 1), (TransferRequest [''a''] 50, 2)]
      @ (TransferVerified [''c''] 50 ''d'' 0, 3) # [])
   = Inl (InconsistentManifest (VerifiedNotRequested [''c'']))
   \<and> replay (\<lambda>_. None) initial_state
     ([(SyncRequest (epoch_request 1 50 0 0), 1), (TransferRequest [''a''] 50, 2)]
      @ (TransferVerified [''a''] 70 ''d'' 0, 3) # [])
   = Inl (InconsistentManifest (VerifiedSizeDifferent 70 [''a''] 50))
   \<and> replay (\<lambda>_. None) initial_state
     ([] @ (TransferVerified [''a''] 50 ''d'' 0, 1) # [])
   = Inl (InconsistentManifest (VerificationBeforeSync 1))"
proof -
  let ?pre = "[(SyncRequest (epoch_request 1 50 0 0), 1), (TransferRequest [''a''] 50, 2)]"
  let ?s = "\<lparr>sync_request_start = Some 1, files = [([''a''], 50)], transfer_files = {[''a'']},
             verified_files = [], request = Some (epoch_request 1 50 0 0), sync_count = 1,
             mismatched_filesizes = []\<rparr>"
  have pre: "replay (\<lambda>_. None) initial_state ?pre = Inr ?s"
    by (simp add: analyze_simps initial_state_def)
  have nil: "replay (\<lambda>_. None) initial_state [] = Inr initial_state"
    by simp
  show ?thesis
    using transfer_verified_inconsistent[OF pre, of "[''c'']" 50 "''d''" 0 3 "[]"]
      transfer_verified_inconsistent[OF pre, of "[''a'']" 70 "''d''" 0 3 "[]"]
      transfer_verified_inconsistent[OF nil, of "[''a'']" 50 "''d''" 0 1 "[]"]
    by (simp add: initial_state_def)
qed





text \<open>
  C9, as stated: after a \<^verbatim>\<open>SyncDone\<close>, a request in a later epoch for a path verified with
  the same size is a no-op. It is not: \<^verbatim>\<open>SyncDone\<close> replaces \<^verbatim>\<open>sync_request\<close> by a fresh
  dictionary whose \<^verbatim>\<open>verified_files\<close> is empty. In this log \<^verbatim>\<open>a\<close> is verified with size 100
  in the first epoch and requested with size 100 in the second, where it ends outstanding.
\<close>

theorem verified_files_counterexample:
  "replay (\<lambda>_. Some 100) initial_state
     [(SyncRequest (epoch_request 1 100 0 0), 1), (TransferRequest [''a''] 100, 2),
      (TransferVerified [''a''] 100 ''d'' 0, 3), (SyncDone 0, 4),
      (SyncRequest (epoch_request 1 100 0 0), 5), (TransferRequest [''a''] 100, 6)] =
   Inr \<lparr>sync_request_start = Some 5, files = [([''a''], 100)], transfer_files = {[''a'']},
        verified_files = [], request = Some (epoch_request 1 100 0 0), sync_count = 2,
        mismatched_filesizes = []\<rparr>"
  by (simp add: analyze_simps initial_state_def epoch_request_def)

lemma analyze_entry_request_entry:
  "analyze_entry ls s (request_entry t fname size', n) = analyze_request s t fname size' n"
  by (simp add: request_entry_def)

text \<open>
  C9, amended: the verified-files mapping is carried from one \<^verbatim>\<open>SyncRequest\<close> to the next
  only while no \<^verbatim>\<open>SyncDone\<close> comes between them. Let a log replay to an open epoch in which
  \<open>fname\<close> is recorded as verified with size \<open>size'\<close> and no work remains. If a
  \<^verbatim>\<open>SyncRequest\<close> follows directly, a request for \<open>fname\<close> with that size is a no-op. If a
  \<^verbatim>\<open>SyncDone\<close> comes first, the mapping is emptied and the same request is added to the
  outstanding files (and to the transfer subset when it is a \<^verbatim>\<open>TransferRequest\<close>).
\<close>

theorem verified_files_cleared_by_sync_done:
  assumes "replay ls initial_state pre = Inr s"
    and "sync_request_start s \<noteq> None"
    and "map_of (verified_files s) fname = Some size'"
  shows "replay ls initial_state
           (pre @ [(SyncRequest r, n), (request_entry is_transfer fname size', n')]) =
         Inr (s\<lparr>sync_count := sync_count s + 1, sync_request_start := Some n, request := Some r\<rparr>)
       \<and> (work_remaining s = Inr False \<longrightarrow>
          replay ls initial_state
           (pre @ [(SyncDone ts, m), (SyncRequest r, n), (request_entry is_transfer fname size', n')]) =
         Inr (s\<lparr>sync_count := sync_count s + 1, sync_request_start := Some n, request := Some r,
                files := [(fname, size')],
                transfer_files := (if is_transfer then {fname} else {}),
                verified_files := []\<rparr>))"
  using assms
  by (auto simp: replay_append analyze_entry_request_entry analyze_sync_request_def
      analyze_request_def analyze_sync_done_def)

theorem verified_files_cleared_by_sync_done_witness:
  "replay (\<lambda>_. Some 100) initial_state
     ([(SyncRequest (epoch_request 1 100 0 0), 1), (TransferRequest [''a''] 100, 2),
       (TransferVerified [''a''] 100 ''d'' 0, 3)]
      @ [(SyncRequest (epoch_request 0 0 0 0), 5), (request_entry False [''a''] 100, 6)]) =
   Inr \<lparr>sync_request_start = Some 5, files = [], transfer_files = {[''a'']},
        verified_files = [([''a''], 100)], request = Some (epoch_request 0 0 0 0),
        sync_count = 2, mismatched_filesizes = []\<rparr>
   \<and> replay (\<lambda>_. Some 100) initial_state
     ([(SyncRequest (epoch_request 1 100 0 0), 1), (TransferRequest [''a''] 100, 2),
       (TransferVerified [''a''] 100 ''d'' 0, 3)]
      @ [(SyncDone 0, 4), (SyncRequest (epoch_request 0 0 0 0), 5),
         (request_entry False [''a''] 100, 6)]) =
   Inr \<lparr>sync_request_start = Some 5, files = [([''a''], 100)], transfer_files = {},
        verified_files = [], request = Some (epoch_request 0 0 0 0),
        sync_count = 2, mismatched_filesizes = []\<rparr>"
proof -
  let ?pre = "[(SyncRequest (epoch_request 1 100 0 0), 1), (TransferRequest [''a''] 100, 2),
               (TransferVerified [''a''] 100 ''d'' 0, 3)]"
  let ?s = "\<lparr>sync_request_start = Some 1, files = [], transfer_files = {[''a'']},
             verified_files = [([''a''], 100)],
             request = Some ((epoch_request 1 100 0 0)\<lparr>files_to_transfer := 0, bytes_to_transfer := 0\<rparr>),
             sync_count = 1, mismatched_filesizes = []\<rparr>"
  have pre: "replay (\<lambda>_. Some 100) initial_state ?pre = Inr ?s"
    by (simp add: analyze_simps initial_state_def epoch_request_def)
  have open_epoch: "sync_request_start ?s \<noteq> None"
    and verified: "map_of (verified_files ?s) [''a''] = Some 100"
    and no_work: "work_remaining ?s = Inr False"
    by (simp_all add: work_remaining_def epoch_request_def)
  from verified_files_cleared_by_sync_done
         [OF pre open_epoch verified, of "epoch_request 0 0 0 0" 5 False 6 0 4] no_work
  show ?thesis by simp
qed

text \<open>
  C1, as stated: when the log ends in an open epoch with work remaining and no size
  mismatch, \<^verbatim>\<open>analyze\<close> reports and returns without raising. It raises
  \<^verbatim>\<open>InconsistentManifest("There was work remaining!")\<close>: the log below (one file of 100
  bytes requested, nothing verified) replays to such an epoch, and the outcome is the error.
\<close>

theorem work_remaining_counterexample:
  "replay (\<lambda>_. None) initial_state
     (read_manifest \<lparr>stable = [Some (SyncRequest (epoch_request 1 100 0 0)),
                               Some (TransferRequest [''a''] 100)],
                     cached = [], buffered = []\<rparr>) =
     Inr \<lparr>sync_request_start = Some 1, files = [([''a''], 100)], transfer_files = {[''a'']},
          verified_files = [], request = Some (epoch_request 1 100 0 0), sync_count = 1,
          mismatched_filesizes = []\<rparr>
   \<and> outcome (analyze (\<lambda>_. None) 0
        \<lparr>stable = [Some (SyncRequest (epoch_request 1 100 0 0)),
                   Some (TransferRequest [''a''] 100)],
         cached = [], buffered = []\<rparr>) =
     Inl (InconsistentManifest WorkRemaining)"
  by (simp add: analyze_def finalize_def read_manifest_def contents_def analyze_simps
      initial_state_def epoch_request_def)


text \<open>
  C1, amended: for every log that replays to an open epoch with outstanding files or a
  counter that is not zero, and with no size mismatch on disk, \<^verbatim>\<open>analyze\<close> reports the
  remaining files and bytes (with \<^verbatim>\<open>logging.error\<close>), leaves the log as it was, and raises
  \<^verbatim>\<open>InconsistentManifest\<close> ("There was work remaining!").
\<close>

theorem work_remaining_raises:
  assumes "replay ls initial_state (read_manifest f) = Inr s"
    and "sync_request_start s \<noteq> None"
    and "mismatched_filesizes s = []"
    and "files s \<noteq> [] \<or>
         (\<exists>r. request s = Some r \<and>
            (files_to_transfer r \<noteq> 0 \<or> bytes_to_transfer r \<noteq> 0 \<or>
             files_to_verify r \<noteq> 0 \<or> bytes_to_verify r \<noteq> 0))"
  shows "\<exists>r. request s = Some r \<and>
           analyze ls now f =
             \<lparr>outcome = Inl (InconsistentManifest WorkRemaining),
              reports = [SyncNotDone,
                         FilesToTransfer (files_to_transfer r) (bytes_to_transfer r),
                         FilesToVerify (files_to_verify r) (bytes_to_verify r),
                         InconsistentFiles (files s)],
              manifest = f\<rparr>"
proof -
  from replay_request_open[OF assms(1)] assms(2) obtain r where r: "request s = Some r"
    by auto
  from assms(4) r have "work_remaining s = Inr True"
    by (auto simp: work_remaining_def)
  with assms(1-3) r show ?thesis
    by (simp add: analyze_def finalize_def)
qed

theorem work_remaining_raises_witness:
  "request \<lparr>sync_request_start = Some 1, files = [([''a''], 100)], transfer_files = {[''a'']},
            verified_files = [], request = Some (epoch_request 1 100 0 0), sync_count = 1,
            mismatched_filesizes = []\<rparr> = Some (epoch_request 1 100 0 0)
   \<and> analyze (\<lambda>_. None) 0
        \<lparr>stable = [Some (SyncRequest (epoch_request 1 100 0 0)),
                   Some (TransferRequest [''a''] 100)],
         cached = [], buffered = []\<rparr> =
     \<lparr>outcome = Inl (InconsistentManifest WorkRemaining),
      reports = [SyncNotDone, FilesToTransfer 1 100, FilesToVerify 0 0,
                 InconsistentFiles [([''a''], 100)]],
      manifest = \<lparr>stable = [Some (SyncRequest (epoch_request 1 100 0 0)),
                              Some (TransferRequest [''a''] 100)],
                    cached = [], buffered = []\<rparr>\<rparr>"
proof -
  let ?f = "\<lparr>stable = [Some (SyncRequest (epoch_request 1 100 0 0)),
                        Some (TransferRequest [''a''] 100)],
              cached = [], buffered = []\<rparr>"
  let ?s = "\<lparr>sync_request_start = Some 1, files = [([''a''], 100)], transfer_files = {[''a'']},
             verified_files = [], request = Some (epoch_request 1 100 0 0), sync_count = 1,
             mismatched_filesizes = []\<rparr>"
  have pre: "replay (\<lambda>_. None) initial_state (read_manifest ?f) = Inr ?s"
    by (simp add: read_manifest_def contents_def analyze_simps initial_state_def)
  have "sync_request_start ?s \<noteq> None" "mismatched_filesizes ?s = []"
    "files ?s \<noteq> [] \<or>
         (\<exists>r. request ?s = Some r \<and>
            (files_to_transfer r \<noteq> 0 \<or> bytes_to_transfer r \<noteq> 0 \<or>
             files_to_verify r \<noteq> 0 \<or> bytes_to_verify r \<noteq> 0))"
    by simp_all
  from work_remaining_raises[OF pre this, of 0]
  show ?thesis by (simp add: epoch_request_def)
qed

section \<open>Properties of the diff\<close>

lemma files_verified_Cons:
  "files_verified (x # xs) =
     (case verified_name x of None \<Rightarrow> files_verified xs | Some y \<Rightarrow> y # files_verified xs)"
  unfolding files_verified_def by simp

lemma files_verified_iff:
  "fname \<in> set (files_verified entries) \<longleftrightarrow>
     (\<exists>sz digest ts n. (TransferVerified fname sz digest ts, n) \<in> set entries)"
proof (induction entries)
  case Nil
  then show ?case by (simp add: files_verified_def)
next
  case (Cons x xs)
  then show ?case
    by (cases x rule: verified_name.cases) (auto simp: files_verified_Cons)
qed

lemma transfer_set_iff:
  "fname \<in> set (transfer_set src dest) \<longleftrightarrow>
     (\<exists>size'. (fname, size') \<in> set src \<and> size' \<noteq> dict_get dest fname (- 1))"
  by (force simp: transfer_set_def)

lemma verify_set_iff:
  "fname \<in> set (verify_set remote_files transfer verified) \<longleftrightarrow>
     fname \<in> fst ` set remote_files \<and> fname \<notin> set transfer \<and> fname \<notin> set verified"
  by (auto simp: verify_set_def)

lemma dict_get_key:
  assumes "dict_get d k (- 1) = (v::int)" and "0 \<le> v"
  shows "k \<in> fst ` set d"
proof (cases "map_of d k")
  case None
  with assms show ?thesis by (simp add: dict_get_def)
next
  case (Some w)
  then have "(k, w) \<in> set d" by (rule map_of_SomeD)
  then show ?thesis by force
qed

lemmas diff_defs = src_files_def dest_files_def diff_to_transfer_def diff_to_verify_def
      transfer_set_def verify_set_def files_verified_def dict_get_def
      TRANSFER_MANIFEST_FILE_NAME_def

text \<open>
  What the diff computes: a path of the source inventory (a dictionary, with a size that
  is not negative) is in neither \<^verbatim>\<open>files_to_transfer\<close> nor \<^verbatim>\<open>files_to_verify\<close> exactly when the
  destination holds it with the same size and the log contains a \<^verbatim>\<open>TransferVerified\<close> entry
  with that name. The size the entry records plays no part, unlike in \<^verbatim>\<open>analyze\<close>, which
  takes a file as verified only with the recorded size.
\<close>

theorem diff_skip_iff_verified_by_name:
  assumes "distinct (map fst (src_files dir remote_files local_files))"
    and "(fname, size') \<in> set (src_files dir remote_files local_files)"
    and "0 \<le> size'"
  shows "(fname \<notin> set (diff_to_transfer dir remote_files local_files) \<and>
          fname \<notin> set (diff_to_verify dir remote_files local_files entries))
         \<longleftrightarrow>
         (dict_get (dest_files dir remote_files local_files) fname (- 1) = size' \<and>
          (\<exists>sz digest ts n. (TransferVerified fname sz digest ts, n) \<in> set entries))"
proof -
  let ?src = "src_files dir remote_files local_files"
  let ?dest = "dest_files dir remote_files local_files"
  have uniq: "s = size'" if "(fname, s) \<in> set ?src" for s
    using eq_key_imp_eq_value[OF assms(1) that assms(2)] .
  have t: "fname \<notin> set (diff_to_transfer dir remote_files local_files) \<longleftrightarrow>
           dict_get ?dest fname (- 1) = size'"
    unfolding diff_to_transfer_def transfer_set_iff using assms(2) uniq by blast
  have remote: "fname \<in> fst ` set remote_files" if "dict_get ?dest fname (- 1) = size'"
  proof (cases dir)
    case PULL
    with assms(2) show ?thesis by (force simp: src_files_def)
  next
    case PUSH
    with that have "dict_get remote_files fname (- 1) = size'" by (simp add: dest_files_def)
    then show ?thesis using assms(3) by (rule dict_get_key)
  qed
  have v: "fname \<notin> set (diff_to_verify dir remote_files local_files entries) \<longleftrightarrow>
           fname \<notin> fst ` set remote_files
           \<or> fname \<in> set (diff_to_transfer dir remote_files local_files)
           \<or> (\<exists>sz digest ts n. (TransferVerified fname sz digest ts, n) \<in> set entries)"
    unfolding diff_to_verify_def verify_set_iff files_verified_iff by blast
  show ?thesis
    unfolding v using t remote by blast
qed

theorem diff_skip_iff_verified_by_name_witness:
  "([''a''] \<notin> set (diff_to_transfer PULL [([''a''], 100)] [([''a''], 100)]) \<and>
    [''a''] \<notin> set (diff_to_verify PULL [([''a''], 100)] [([''a''], 100)]
                      [(TransferVerified [''a''] 50 ''d'' 0, 1)]))
   \<and> dict_get (dest_files PULL [([''a''], 100)] [([''a''], 100)]) [''a''] (- 1) = 100
   \<and> (TransferVerified [''a''] 50 ''d'' 0, 1::nat) \<in> set [(TransferVerified [''a''] 50 ''d'' 0, 1)]"
proof -
  have 1: "distinct (map fst (src_files PULL [([''a''], 100)] [([''a''], 100)]))"
    by (simp add: src_files_def)
  have 2: "([''a''], 100) \<in> set (src_files PULL [([''a''], 100)] [([''a''], 100)])"
    by (simp add: src_files_def)
  have 3: "(0::int) \<le> 100" by simp
  have 4: "dict_get (dest_files PULL [([''a''], 100)] [([''a''], 100)]) [''a''] (- 1) = 100"
    by (simp add: dest_files_def dict_get_def TRANSFER_MANIFEST_FILE_NAME_def)
  have 5: "\<exists>sz digest ts n. (TransferVerified [''a''] sz digest ts, n)
             \<in> set [(TransferVerified [''a''] 50 ''d'' 0, 1::nat)]"
    by auto
  from diff_skip_iff_verified_by_name[OF 1 2 3, of "[(TransferVerified [''a''] 50 ''d'' 0, 1)]"] 4 5
  show ?thesis by simp
qed

text \<open>
  C3 fails on the code: the diff skips a path on a \<^verbatim>\<open>TransferVerified\<close> entry of another
  size. The file \<^verbatim>\<open>a\<close> was transferred and verified with 50 bytes in a closed epoch and has
  100 bytes at both ends now, never hashed at that size. The only \<^verbatim>\<open>TransferVerified\<close> entry
  for \<^verbatim>\<open>a\<close> records 50 bytes, yet \<^verbatim>\<open>a\<close> is in neither set: \<^verbatim>\<open>write_inner_dag\<close> opens an epoch
  with nothing to do. The replay of \<^verbatim>\<open>analyze\<close>, which compares sizes, then finds the entry
  of 50 bytes against 100 bytes on disk and raises \<^verbatim>\<open>InconsistentManifest\<close>; no later run
  of the diff schedules the verification that would clear it.
\<close>

theorem diff_skips_changed_size:
  "map_of (src_files PULL [([''a''], 100)] [([''a''], 100)]) [''a''] = Some 100
   \<and> diff_to_transfer PULL [([''a''], 100)] [([''a''], 100)] = []
   \<and> diff_to_verify PULL [([''a''], 100)] [([''a''], 100)]
       [(SyncRequest (epoch_request 1 50 0 0), 1), (TransferRequest [''a''] 50, 2),
        (TransferVerified [''a''] 50 ''d'' 0, 3), (SyncDone 0, 4)] = []
   \<and> map_sum id (\<lambda>r. (to_transfer (fst r), to_verify (fst r), cached (snd r)))
       (write_inner_dag PULL [''/'', ''remote''] [([''a''], 100)] [''/'', ''local'']
          [([''a''], 100)] 7
          \<lparr>stable = [Some (SyncRequest (epoch_request 1 50 0 0)),
                     Some (TransferRequest [''a''] 50),
                     Some (TransferVerified [''a''] 50 ''d'' 0), Some (SyncDone 0)],
           cached = [], buffered = []\<rparr>)
     = Inr ([], [],
            [Some (SyncRequest
                    \<lparr>direction = PULL, remote_prefix = [''/'', ''remote''],
                     files_at_source = 1, files_to_transfer = 0, bytes_to_transfer = 0,
                     files_to_verify = 0, bytes_to_verify = 0, timestamp = 7\<rparr>)])
   \<and> outcome (analyze (\<lambda>p. Some 100) 8
        \<lparr>stable = [Some (SyncRequest (epoch_request 1 50 0 0)),
                   Some (TransferRequest [''a''] 50),
                   Some (TransferVerified [''a''] 50 ''d'' 0), Some (SyncDone 0)],
         cached = [Some (SyncRequest
                    \<lparr>direction = PULL, remote_prefix = [''/'', ''remote''],
                     files_at_source = 1, files_to_transfer = 0, bytes_to_transfer = 0,
                     files_to_verify = 0, bytes_to_verify = 0, timestamp = 7\<rparr>)],
         buffered = []\<rparr>)
     = Inl (InconsistentManifest (LocalSizesMismatch 1))"
proof -
  let ?f = "\<lparr>stable = [Some (SyncRequest (epoch_request 1 50 0 0)),
                     Some (TransferRequest [''a''] 50),
                     Some (TransferVerified [''a''] 50 ''d'' 0), Some (SyncDone 0)],
           cached = [], buffered = []\<rparr>"
  have r: "read_manifest ?f =
      [(SyncRequest (epoch_request 1 50 0 0), 1), (TransferRequest [''a''] 50, 2),
       (TransferVerified [''a''] 50 ''d'' 0, 3), (SyncDone 0, 4)]"
    by (simp add: read_manifest_def contents_def)
  have s: "src_files PULL [([''a''], 100)] [([''a''], 100)] = [([''a''], 100)]"
    by (simp add: diff_defs)
  have t: "diff_to_transfer PULL [([''a''], 100)] [([''a''], 100)] = []"
    by (simp add: diff_defs)
  have v: "diff_to_verify PULL [([''a''], 100)] [([''a''], 100)]
       [(SyncRequest (epoch_request 1 50 0 0), 1), (TransferRequest [''a''] 50, 2),
        (TransferVerified [''a''] 50 ''d'' 0, 3), (SyncDone 0, 4)] = []"
    by (simp add: diff_defs)
  have w: "map_sum id (\<lambda>r. (to_transfer (fst r), to_verify (fst r), cached (snd r)))
       (write_inner_dag PULL [''/'', ''remote''] [([''a''], 100)] [''/'', ''local'']
          [([''a''], 100)] 7 ?f)
     = Inr ([], [],
            [Some (SyncRequest
                    \<lparr>direction = PULL, remote_prefix = [''/'', ''remote''],
                     files_at_source = 1, files_to_transfer = 0, bytes_to_transfer = 0,
                     files_to_verify = 0, bytes_to_verify = 0, timestamp = 7\<rparr>)])"
    unfolding write_inner_dag_def Let_def r s t v
    by (simp add: sorted_set_def write_entry_to_def close_file_def flush_def)
  have a: "outcome (analyze (\<lambda>p. Some 100) 8
        \<lparr>stable = [Some (SyncRequest (epoch_request 1 50 0 0)),
                   Some (TransferRequest [''a''] 50),
                   Some (TransferVerified [''a''] 50 ''d'' 0), Some (SyncDone 0)],
         cached = [Some (SyncRequest
                    \<lparr>direction = PULL, remote_prefix = [''/'', ''remote''],
                     files_at_source = 1, files_to_transfer = 0, bytes_to_transfer = 0,
                     files_to_verify = 0, bytes_to_verify = 0, timestamp = 7\<rparr>)],
         buffered = []\<rparr>)
     = Inl (InconsistentManifest (LocalSizesMismatch 1))"
    by (simp add: analyze_def finalize_def read_manifest_def contents_def analyze_simps
        initial_state_def epoch_request_def)
  from s t v w a show ?thesis by simp
qed

text \<open>
  For a pull the source is the remote inventory, and the set to verify is exactly the
  paths of the source inventory that are neither to be transferred nor named by a
  \<^verbatim>\<open>TransferVerified\<close> entry of the log.
\<close>

theorem pull_verify_set:
  "set (diff_to_verify PULL remote_files local_files entries) =
     {fname \<in> fst ` set (src_files PULL remote_files local_files).
        fname \<notin> set (diff_to_transfer PULL remote_files local_files) \<and>
        fname \<notin> set (files_verified entries)}"
  unfolding diff_to_verify_def by (force simp: verify_set_iff src_files_def)

text \<open>
  C5 fails for a push: the loop still runs over the remote inventory, which is then the
  destination.
  With an empty local directory, a remote file \<^verbatim>\<open>a\<close> of 100 bytes and an empty log, \<^verbatim>\<open>a\<close> is
  put into the set to verify although it is not in the source inventory, and
  \<^verbatim>\<open>write_inner_dag\<close> then raises \<^verbatim>\<open>KeyError\<close> at \<^verbatim>\<open>src_files[fname]\<close> when it sums the bytes
  to verify.
\<close>

theorem push_verify_outside_source:
  "src_files PUSH [([''a''], 100)] [] = []
   \<and> diff_to_transfer PUSH [([''a''], 100)] [] = []
   \<and> diff_to_verify PUSH [([''a''], 100)] [] [] = [[''a'']]
   \<and> write_inner_dag PUSH [''/'', ''remote''] [([''a''], 100)] [''/'', ''local''] [] 0
        \<lparr>stable = [], cached = [], buffered = []\<rparr> = Inl (KeyError ''a'')"
proof -
  have s: "src_files PUSH [([''a''], 100)] [] = []"
    by (simp add: diff_defs)
  have t: "diff_to_transfer PUSH [([''a''], 100)] [] = []"
    by (simp add: diff_defs)
  have v: "diff_to_verify PUSH [([''a''], 100)] [] [] = [[''a'']]"
    by (simp add: diff_defs)
  have r: "read_manifest \<lparr>stable = [], cached = [], buffered = []\<rparr> = []"
    by (simp add: read_manifest_def contents_def)
  have "write_inner_dag PUSH [''/'', ''remote''] [([''a''], 100)] [''/'', ''local''] [] 0
        \<lparr>stable = [], cached = [], buffered = []\<rparr> = Inl (KeyError ''a'')"
    unfolding write_inner_dag_def Let_def r s t v
    by (simp add: sorted_set_def str_path_def)
  with s t v show ?thesis by simp
qed

section \<open>Flattened names\<close>

text \<open>
  C10. \<^verbatim>\<open>flatten_path\<close> is not injective: the distinct relative paths \<^verbatim>\<open>a/b\<close> and
  \<^verbatim>\<open>a_SLASH_b\<close> have the same flattened name, so the work items \<^verbatim>\<open>make_cmd_info\<close> builds
  for them carry the same \<^verbatim>\<open>flattened_name\<close> and name the same metadata file.
\<close>

theorem flatten_path_not_injective:
  "[''a'', ''b''] \<noteq> [''a_SLASH_b'']
   \<and> flatten_path [''a'', ''b''] = flatten_path [''a_SLASH_b'']
   \<and> \<not> inj flatten_path
   \<and> map metadata_file_name
        (make_cmd_info [[''a'', ''b''], [''a_SLASH_b'']] remote_prefix' local_prefix' manifest_path)
      = [''a_SLASH_b.metadata'', ''a_SLASH_b.metadata'']"
proof -
  have a: "flatten_path [''a'', ''b''] = ''a_SLASH_b''"
    by (simp add: flatten_path_def str_path_def replace_def)
  have b: "flatten_path [''a_SLASH_b''] = ''a_SLASH_b''"
    by (simp add: flatten_path_def str_path_def replace_def)
  have "\<not> inj flatten_path"
  proof
    assume "inj flatten_path"
    then have "[''a'', ''b''] = [''a_SLASH_b'']"
      by (rule injD) (simp only: a b)
    then show False by simp
  qed
  with a b show ?thesis
    by (simp add: make_cmd_info_def metadata_file_name_def)
qed

section \<open>Properties of \<^verbatim>\<open>copy_with_hash\<close>\<close>

lemma copy_loop_last_block:
  assumes "buf \<noteq> []"
  shows "copy_loop buf [] written n after_writes =
           (written @ buf, n, after_writes @ [written @ buf])"
proof -
  have "copy_loop buf [] written n after_writes =
          copy_loop [] [] (written @ buf) n (after_writes @ [written @ buf])"
    using assms by (subst copy_loop.simps) simp
  also have "\<dots> = (written @ buf, n, after_writes @ [written @ buf])"
    by (subst copy_loop.simps) simp
  finally show ?thesis .
qed

lemma MB_pos: "0 < MB"
  by (simp add: MB_def)

lemma copy_loop_empty:
  "copy_loop [] rest written n after_writes = (written, n, after_writes)"
  by (subst copy_loop.simps) simp

lemma with_suffix_tmp_of_tmp:
  "with_suffix [''/'', ''data'', ''x.tmp''] ''.tmp'' = Inr [''/'', ''data'', ''x.tmp'']"
  by (simp add: with_suffix_def path_name_def name_suffix_def rfind_def)

text \<open>
  C7 at a destination whose name ends in \<^verbatim>\<open>.tmp\<close>: \<^verbatim>\<open>dest_path.with_suffix(".tmp")\<close> is then
  \<^verbatim>\<open>dest_path\<close> itself, so the ``temporary sibling'' is the destination. With \<^verbatim>\<open>old\<close> at the
  destination \<^verbatim>\<open>/data/x.tmp\<close> and \<^verbatim>\<open>new\<close> at the source, an interruption before the rename
  finds at the destination: \<^verbatim>\<open>old\<close> (nothing done yet), the empty file (opened for writing),
  or \<^verbatim>\<open>new\<close> (written, not yet renamed). The second is neither absent nor the content the
  destination had.
\<close>

theorem copy_onto_tmp_destination:
  "with_suffix [''/'', ''data'', ''x.tmp''] ''.tmp'' = Inr [''/'', ''data'', ''x.tmp'']
   \<and> map_sum id (\<lambda>run. map (\<lambda>s. s [''/'', ''data'', ''x.tmp'']) (interrupted run))
        (copy_with_hash
           ((\<lambda>p. None)([''/'', ''scratch'', ''x.tmp''] \<mapsto> ''new'',
                        [''/'', ''data'', ''x.tmp''] \<mapsto> ''old''))
           [''/'', ''scratch'', ''x.tmp''] [''/'', ''data'', ''x.tmp''])
      = Inr [Some ''old'', Some [], Some ''new'']"
proof -
  have t: "take MB ''new'' = ''new''" "drop MB ''new'' = []"
    by (simp_all add: MB_def)
  show ?thesis
    unfolding copy_with_hash_def with_suffix_tmp_of_tmp
    by (simp add: Let_def t copy_loop_last_block MB_pos)
qed

text \<open>
  Where the temporary path differs from the destination, every state an interruption
  before the rename can leave has the destination as it was before the call.
\<close>

theorem copy_with_hash_keeps_destination:
  assumes "with_suffix dest_path ''.tmp'' = Inr tmp_path"
    and "tmp_path \<noteq> dest_path"
    and "copy_with_hash fs src_path dest_path = Inr run"
  shows "list_all (\<lambda>s. s dest_path = fs dest_path) (interrupted run)"
proof -
  from assms(3) obtain d where d: "fs src_path = Some d"
    by (auto simp: copy_with_hash_def assms(1) split: option.splits)
  from assms(3) have
    "interrupted run =
       fs # fs(tmp_path \<mapsto> []) #
       map (\<lambda>c. (fs(tmp_path \<mapsto> []))(tmp_path \<mapsto> c))
         (snd (snd (copy_loop
            (take MB (case (fs(tmp_path \<mapsto> [])) src_path of None \<Rightarrow> [] | Some d \<Rightarrow> d))
            (drop MB (case (fs(tmp_path \<mapsto> [])) src_path of None \<Rightarrow> [] | Some d \<Rightarrow> d)) []
            (length (take MB (case (fs(tmp_path \<mapsto> [])) src_path of None \<Rightarrow> [] | Some d \<Rightarrow> d)))
            [])))"
    by (auto simp: copy_with_hash_def assms(1) d Let_def)
  then show ?thesis
    using assms(2) by (simp add: list_all_iff)
qed

theorem copy_with_hash_keeps_destination_witness:
  "map_sum id (\<lambda>run. list_all (\<lambda>s. s [''/'', ''data'', ''x.txt''] = Some ''old'') (interrupted run))
     (copy_with_hash
        ((\<lambda>p. None)([''/'', ''scratch'', ''x.txt''] \<mapsto> ''new'',
                     [''/'', ''data'', ''x.txt''] \<mapsto> ''old''))
        [''/'', ''scratch'', ''x.txt''] [''/'', ''data'', ''x.txt''])
   = Inr True"
proof -
  let ?fs = "(\<lambda>p. None)([''/'', ''scratch'', ''x.txt''] \<mapsto> ''new'',
                     [''/'', ''data'', ''x.txt''] \<mapsto> ''old'')"
  have w: "with_suffix [''/'', ''data'', ''x.txt''] ''.tmp'' = Inr [''/'', ''data'', ''x.tmp'']"
    by (simp add: with_suffix_def path_name_def name_suffix_def rfind_def)
  have ne: "[''/'', ''data'', ''x.tmp''] \<noteq> [''/'', ''data'', ''x.txt'']"
    by simp
  obtain run where run:
    "copy_with_hash ?fs [''/'', ''scratch'', ''x.txt''] [''/'', ''data'', ''x.txt''] = Inr run"
    by (simp add: copy_with_hash_def w Let_def)
  from copy_with_hash_keeps_destination[OF w ne run] show ?thesis
    by (simp add: run)
qed

section \<open>Durability of the appends\<close>

text \<open>
  C8 on the three places that append to the sync log. \<^verbatim>\<open>analyze\<close> on a log whose epoch is
  complete appends \<^verbatim>\<open>SyncDone\<close>, and \<^verbatim>\<open>write_inner_dag\<close> appends the \<^verbatim>\<open>SyncRequest\<close> and the
  requests: both leave the \<^verbatim>\<open>with\<close> block without \<^verbatim>\<open>flush\<close> and \<^verbatim>\<open>os.fsync\<close>, so when they
  return the lines are with the operating system and not on stable storage.
  \<^verbatim>\<open>verify_metadata\<close> flushes and forces: its \<^verbatim>\<open>TransferVerified\<close> line, and the lines written
  before it, are on stable storage when it returns.
\<close>

theorem appends_not_forced:
  "analyze (\<lambda>p. None) 7
     \<lparr>stable = [Some (SyncRequest (epoch_request 0 0 0 0))], cached = [], buffered = []\<rparr>
   = \<lparr>outcome = Inr SynchronizationDone, reports = [],
      manifest = \<lparr>stable = [Some (SyncRequest (epoch_request 0 0 0 0))],
                    cached = [Some (SyncDone 7)], buffered = []\<rparr>\<rparr>
   \<and> map_sum id snd
       (write_inner_dag PULL [''/'', ''remote''] [([''a''], 100)] [''/'', ''local''] [] 7
          \<lparr>stable = [], cached = [], buffered = []\<rparr>)
     = Inr \<lparr>stable = [],
            cached = [Some (SyncRequest
                             \<lparr>direction = PULL, remote_prefix = [''/'', ''remote''],
                              files_at_source = 1, files_to_transfer = 1,
                              bytes_to_transfer = 100, files_to_verify = 0,
                              bytes_to_verify = 0, timestamp = 7\<rparr>),
                      Some (TransferRequest [''a''] 100)],
            buffered = []\<rparr>
   \<and> verify_metadata (\<lambda>data. ''digest'') 7 [''/'', ''local''] [''/'', ''local'', ''a'']
       (Metadata [''/'', ''remote'', ''a''] 3 ''digest'')
       ((\<lambda>p. None)([''/'', ''local'', ''a''] \<mapsto> ''abc''))
       \<lparr>stable = [], cached = [Some (TransferRequest [''a''] 3)], buffered = []\<rparr>
     = Inr \<lparr>stable = [Some (TransferRequest [''a''] 3),
                      Some (TransferVerified [''a''] 3 ''digest'' 7)],
            cached = [], buffered = []\<rparr>"
proof -
  have a: "analyze (\<lambda>p. None) 7
     \<lparr>stable = [Some (SyncRequest (epoch_request 0 0 0 0))], cached = [], buffered = []\<rparr>
   = \<lparr>outcome = Inr SynchronizationDone, reports = [],
      manifest = \<lparr>stable = [Some (SyncRequest (epoch_request 0 0 0 0))],
                    cached = [Some (SyncDone 7)], buffered = []\<rparr>\<rparr>"
    by (simp add: analyze_def finalize_def read_manifest_def contents_def analyze_simps
        initial_state_def epoch_request_def write_entry_to_def close_file_def flush_def)
  have r: "read_manifest \<lparr>stable = [], cached = [], buffered = []\<rparr> = []"
    by (simp add: read_manifest_def contents_def)
  have t: "diff_to_transfer PULL [([''a''], 100)] [] = [[''a'']]"
    by (simp add: diff_defs)
  have v: "diff_to_verify PULL [([''a''], 100)] [] [] = []"
    by (simp add: diff_defs)
  have s: "src_files PULL [([''a''], 100)] [] = [([''a''], 100)]"
    by (simp add: diff_defs)
  have w: "map_sum id snd
       (write_inner_dag PULL [''/'', ''remote''] [([''a''], 100)] [''/'', ''local''] [] 7
          \<lparr>stable = [], cached = [], buffered = []\<rparr>)
     = Inr \<lparr>stable = [],
            cached = [Some (SyncRequest
                             \<lparr>direction = PULL, remote_prefix = [''/'', ''remote''],
                              files_at_source = 1, files_to_transfer = 1,
                              bytes_to_transfer = 100, files_to_verify = 0,
                              bytes_to_verify = 0, timestamp = 7\<rparr>),
                      Some (TransferRequest [''a''] 100)],
            buffered = []\<rparr>"
    unfolding write_inner_dag_def Let_def r s t v
    by (simp add: sorted_set_def write_entry_to_def close_file_def flush_def)
  have m: "verify_metadata (\<lambda>data. ''digest'') 7 [''/'', ''local''] [''/'', ''local'', ''a'']
       (Metadata [''/'', ''remote'', ''a''] 3 ''digest'')
       ((\<lambda>p. None)([''/'', ''local'', ''a''] \<mapsto> ''abc''))
       \<lparr>stable = [], cached = [Some (TransferRequest [''a''] 3)], buffered = []\<rparr>
     = Inr \<lparr>stable = [Some (TransferRequest [''a''] 3),
                      Some (TransferVerified [''a''] 3 ''digest'' 7)],
            cached = [], buffered = []\<rparr>"
    by (simp add: verify_metadata_def relative_to_def write_entry_to_def close_file_def
        flush_def fsync_def)
  from a w m show ?thesis by (intro conjI)
qed

section \<open>Properties of the line format\<close>

lemma tags:
  "camel_to_upper_snake ''Name'' = ''NAME''"
  "camel_to_upper_snake ''Size'' = ''SIZE''"
  "camel_to_upper_snake ''Digest'' = ''DIGEST''"
  "camel_to_upper_snake ''Timestamp'' = ''TIMESTAMP''"
  "camel_to_upper_snake ''TransferRequest'' = ''TRANSFER_REQUEST''"
  "camel_to_upper_snake ''VerifyRequest'' = ''VERIFY_REQUEST''"
  "camel_to_upper_snake ''TransferVerified'' = ''TRANSFER_VERIFIED''"
  "camel_to_upper_snake ''SyncRequest'' = ''SYNC_REQUEST''"
  "camel_to_upper_snake ''SyncDone'' = ''SYNC_DONE''"
  "camel_to_upper_snake ''File'' = ''FILE''"
  "camel_to_upper_snake ''Metadata'' = ''METADATA''"
  by code_simp+

lemma entry_type_cases:
  "entry_type e =
     (case e of
        TransferRequest _ _ \<Rightarrow> ''TRANSFER_REQUEST''
      | VerifyRequest _ _ \<Rightarrow> ''VERIFY_REQUEST''
      | TransferVerified _ _ _ _ \<Rightarrow> ''TRANSFER_VERIFIED''
      | SyncRequest _ \<Rightarrow> ''SYNC_REQUEST''
      | SyncDone _ \<Rightarrow> ''SYNC_DONE''
      | File _ _ \<Rightarrow> ''FILE''
      | Metadata _ _ _ \<Rightarrow> ''METADATA'')"
  by (cases e) (simp_all add: entry_type_def tags)

lemma table:
  "ENTRY_TYPE_TO_CLASS =
     [(''NAME'', CName), (''DIGEST'', CDigest), (''TRANSFER_VERIFIED'', CTransferVerified),
      (''METADATA'', CMetadata), (''TRANSFER_REQUEST'', CTransferRequest),
      (''VERIFY_REQUEST'', CVerifyRequest), (''FILE'', CFile), (''SIZE'', CSize),
      (''TIMESTAMP'', CTimestamp), (''SYNC_REQUEST'', CSyncRequest), (''SYNC_DONE'', CSyncDone)]"
  by (simp add: ENTRY_TYPE_TO_CLASS_def descendants_def tags)

lemma lookup_entry_type:
  "map_of ENTRY_TYPE_TO_CLASS (entry_type e) = Some (class_of e)"
  by (cases e) (simp_all add: table entry_type_cases)

lemma entry_type_word:
  "entry_type e \<noteq> []" "list_all (\<lambda>c. \<not> is_space c) (entry_type e)"
  by (cases e; simp add: entry_type_cases is_space_def)+

lemma strip_id:
  assumes "s \<noteq> []" "\<not> is_space (hd s)" "\<not> is_space (last s)"
  shows "strip s = s"
proof -
  from assms have 1: "dropWhile is_space s = s"
    by (cases s) simp_all
  from assms have "rev s \<noteq> []" "\<not> is_space (hd (rev s))"
    by (simp_all add: hd_rev)
  then have 2: "dropWhile is_space (rev s) = rev s"
    by (cases "rev s") simp_all
  show ?thesis by (simp add: strip_def 1 2)
qed

lemma split_line:
  assumes "tag \<noteq> []" "list_all (\<lambda>c. \<not> is_space c) tag"
    and "body \<noteq> []" "\<not> is_space (hd body)" "\<not> is_space (last body)"
  shows "split_maxsplit1 (strip (tag @ '' '' @ body)) = [tag, body]"
proof -
  have sp: "is_space CHR '' ''" by (simp add: is_space_def)
  from assms(1,2) have h: "\<not> is_space (hd tag)" by (cases tag) simp_all
  have "strip (tag @ '' '' @ body) = tag @ '' '' @ body"
    using assms h by (intro strip_id) (simp_all)
  moreover have "dropWhile is_space (tag @ '' '' @ body) = tag @ '' '' @ body"
    using assms(1) h by (cases tag) simp_all
  moreover have "takeWhile (\<lambda>c. \<not> is_space c) (tag @ '' '' @ body) = tag"
    using assms(2) sp by (simp add: list_all_iff)
  moreover have "dropWhile (\<lambda>c. \<not> is_space c) (tag @ '' '' @ body) = '' '' @ body"
    using assms(2) sp by (simp add: list_all_iff)
  moreover have "dropWhile is_space ('' '' @ body) = body"
    using assms(3,4) sp by (cases body) simp_all
  ultimately show ?thesis
    using assms(1,3) by (simp add: split_maxsplit1_def Let_def)
qed

lemma split_on_nonempty: "split_on sep s \<noteq> []"
  by (induction s) (auto split: list.splits)

lemma split_on_append_word:
  assumes "sep \<notin> set w"
  shows "split_on sep (w @ s) = (w @ hd (split_on sep s)) # tl (split_on sep s)"
  using assms
proof (induction w)
  case Nil
  then show ?case using split_on_nonempty[of sep s] by (cases "split_on sep s") simp_all
next
  case (Cons c w)
  then show ?case by auto
qed

lemma split_on_word:
  "sep \<notin> set w \<Longrightarrow> split_on sep w = [w]"
  using split_on_append_word[of sep w "[]"] by simp

lemma split_on_join:
  assumes "list_all (\<lambda>part. CHR ''/'' \<notin> set part) ps" "ps \<noteq> []"
  shows "split_on CHR ''/'' (join_parts ps) = ps"
  using assms
proof (induction ps rule: join_parts.induct)
  case 1
  then show ?case by simp
next
  case (2 p)
  then show ?case by (simp add: split_on_word)
next
  case (3 p q ps)
  then have "split_on CHR ''/'' (join_parts (q # ps)) = q # ps" by simp
  moreover have "split_on CHR ''/'' (p @ ''/'' @ join_parts (q # ps)) =
      (p @ hd (split_on CHR ''/'' (''/'' @ join_parts (q # ps))))
        # tl (split_on CHR ''/'' (''/'' @ join_parts (q # ps)))"
    using 3 by (intro split_on_append_word) simp
  ultimately show ?case by simp
qed

lemma join_parts_hd:
  assumes "list_all valid_part ps" "ps \<noteq> []"
  shows "join_parts ps \<noteq> [] \<and> hd (join_parts ps) \<noteq> CHR ''/''"
proof -
  from assms obtain p qs where ps: "ps = p # qs" by (cases ps) auto
  with assms(1) have vp: "p \<noteq> []" "CHR ''/'' \<notin> set p"
    by (auto simp: valid_part_def)
  from vp obtain c cs where "p = c # cs" by (cases p) auto
  with vp have p: "p \<noteq> []" "hd p \<noteq> CHR ''/''" by auto
  have "join_parts (p # qs) = p \<or> (\<exists>r. join_parts (p # qs) = p @ r)"
    by (cases qs) auto
  with p show ?thesis unfolding ps by auto
qed

lemma filter_valid_parts:
  "list_all valid_part ps \<Longrightarrow> filter (\<lambda>part. part \<noteq> [] \<and> part \<noteq> ''.'') ps = ps"
  by (induction ps) (auto simp: valid_part_def)

lemma valid_parts_no_slash:
  "list_all valid_part ps \<Longrightarrow> list_all (\<lambda>part. CHR ''/'' \<notin> set part) ps"
  by (induction ps) (auto simp: valid_part_def)

lemma split_filter_join:
  assumes "list_all valid_part ps"
  shows "filter (\<lambda>part. part \<noteq> [] \<and> part \<noteq> ''.'') (split_on CHR ''/'' (join_parts ps)) = ps"
proof (cases ps)
  case Nil
  then show ?thesis by simp
next
  case (Cons a list)
  with assms have "split_on CHR ''/'' (join_parts ps) = ps"
    by (intro split_on_join valid_parts_no_slash) simp_all
  with assms show ?thesis by (simp add: filter_valid_parts)
qed

lemma path_root_relative:
  assumes "s \<noteq> []" "hd s \<noteq> CHR ''/''"
  shows "path_root s = []"
  using assms by (cases s) (simp_all add: path_root_def)

lemma path_root_slash:
  assumes "s = [] \<or> hd s \<noteq> CHR ''/''"
  shows "path_root (''/'' @ s) = [''/'']"
  using assms by (cases s) (auto simp: path_root_def)

lemma path_root_two_slashes:
  assumes "s = [] \<or> hd s \<noteq> CHR ''/''"
  shows "path_root (''//'' @ s) = [''//'']"
  using assms by (cases s) (auto simp: path_root_def)

lemma join_parts_start:
  assumes "list_all valid_part ps"
  shows "join_parts ps = [] \<or> hd (join_parts ps) \<noteq> CHR ''/''"
  using join_parts_hd[OF assms] by (cases ps) auto

lemma parse_path_str_path:
  assumes "valid_path p"
  shows "parse_path (str_path p) = p"
proof (cases p)
  case Nil
  then show ?thesis
    by (simp add: str_path_def parse_path_def path_root_def)
next
  case (Cons r ps)
  with assms have ps: "list_all valid_part ps"
    and r: "r = ''/'' \<or> r = ''//'' \<or> valid_part r"
    by (simp_all add: valid_path_def)
  note st = join_parts_start[OF ps]
  consider (root) "r = ''/''" | (root2) "r = ''//''" | (rel) "r \<noteq> ''/''" "r \<noteq> ''//''" "valid_part r"
    using r by blast
  then show ?thesis
  proof cases
    case root
    have "parse_path (''/'' @ join_parts ps) = ''/'' # ps"
      unfolding parse_path_def path_root_slash[OF st]
      using split_filter_join[OF ps] by simp
    with root Cons show ?thesis by (simp add: str_path_def)
  next
    case root2
    have "parse_path (''//'' @ join_parts ps) = ''//'' # ps"
      unfolding parse_path_def path_root_two_slashes[OF st]
      using split_filter_join[OF ps] by simp
    with root2 Cons show ?thesis by (simp add: str_path_def)
  next
    case rel
    from rel(3) ps have all: "list_all valid_part (r # ps)" by simp
    from join_parts_hd[OF all] have "path_root (join_parts (r # ps)) = []"
      by (intro path_root_relative) simp_all
    then have "parse_path (join_parts (r # ps)) = r # ps"
      unfolding parse_path_def using split_filter_join[OF all] by simp
    with rel Cons show ?thesis by (simp add: str_path_def)
  qed
qed

lemma to_path_str_path:
  "valid_path p \<Longrightarrow> to_path (JString (str_path p)) = Inr p"
  by (simp add: parse_path_str_path)

lemma as_direction_value: "as_direction (JString (direction_value d)) = Some d"
  by (cases d) (simp_all add: direction_value_def)

lemma construct_to_json:
  assumes "valid_entry e"
  shows "construct py (class_of e) (JObject (to_json e)) = Inr (Some e)"
proof (cases e)
  case (SyncRequest r)
  with assms have "valid_path (remote_prefix r)" by simp
  then show ?thesis
    unfolding SyncRequest
    by (cases r)
       (simp add: construct_def is_abstract_def check_keys_def field_def and_then_def
        typed_def parse_path_str_path as_direction_value psubset_eq
        del: as_direction.simps)
qed (use assms in \<open>simp_all add: construct_def is_abstract_def check_keys_def field_def
        and_then_def typed_def name_size_def parse_path_str_path psubset_eq\<close>)

text \<open>
  C6. Let \<open>e\<close> be a well-formed entry of any of the seven concrete classes, and let
  \<^verbatim>\<open>json.loads\<close> read back the object that \<^verbatim>\<open>json.dumps\<close> wrote for it, a text that starts
  and ends with a brace. Then parsing the line \<^verbatim>\<open>TAG <json-object>\<close> that \<^verbatim>\<open>__str__\<close> builds gives
  \<open>e\<close> again. Whatever the line, when its first word is not a tag of
  \<^verbatim>\<open>ENTRY_TYPE_TO_CLASS\<close> parsing raises \<^verbatim>\<open>KeyError\<close> for it, and when \<^verbatim>\<open>json.loads\<close> raises on the
  rest of the line parsing raises the same exception: no entry is returned in its place.
\<close>

theorem parse_serialize_round_trip:
  assumes "valid_entry e"
    and "loads py (dumps py (JObject (to_json e))) = Inr (JObject (to_json e))"
    and "dumps py (JObject (to_json e)) \<noteq> []"
    and "hd (dumps py (JObject (to_json e))) = CHR ''{''"
    and "last (dumps py (JObject (to_json e))) = CHR ''}''"
  shows "parse_manifest_entry py (entry_str py e) = Inr (Some e)
       \<and> (split_maxsplit1 (strip line) = [tag, info] \<longrightarrow>
            map_of ENTRY_TYPE_TO_CLASS tag = None \<longrightarrow>
            parse_manifest_entry py line = Inl (KeyError tag))
       \<and> (split_maxsplit1 (strip line) = [tag, info] \<longrightarrow>
            map_of ENTRY_TYPE_TO_CLASS tag = Some cls \<longrightarrow>
            loads py info = Inl err \<longrightarrow>
            parse_manifest_entry py line = Inl err)"
proof -
  let ?text = "dumps py (JObject (to_json e))"
  have "split_maxsplit1 (strip (entry_type e @ '' '' @ ?text)) = [entry_type e, ?text]"
    using assms(3-5) by (intro split_line entry_type_word) (simp_all add: is_space_def)
  then have "parse_manifest_entry py (entry_str py e) = Inr (Some e)"
    by (simp add: parse_manifest_entry_def entry_str_def lookup_entry_type assms(2)
        and_then_def construct_to_json[OF assms(1)])
  then show ?thesis
    by (simp add: parse_manifest_entry_def and_then_def)
qed

theorem parse_serialize_round_trip_witness:
  "entry_str example_python (SyncDone 7) = ''SYNC_DONE '' @ example_text
   \<and> parse_manifest_entry example_python (entry_str example_python (SyncDone 7))
       = Inr (Some (SyncDone 7))
   \<and> parse_manifest_entry example_python ''BOGUS {}'' = Inl (KeyError ''BOGUS'')
   \<and> parse_manifest_entry example_python ''SYNC_DONE {'' = Inl JSONDecodeError"
proof -
  have 1: "valid_entry (SyncDone 7)" by simp
  have 2: "loads example_python (dumps example_python (JObject (to_json (SyncDone 7))))
             = Inr (JObject (to_json (SyncDone 7)))"
    by (simp add: example_python_def)
  have 3: "dumps example_python (JObject (to_json (SyncDone 7))) \<noteq> []"
    "hd (dumps example_python (JObject (to_json (SyncDone 7)))) = CHR ''{''"
    "last (dumps example_python (JObject (to_json (SyncDone 7)))) = CHR ''}''"
    by (simp_all add: example_python_def example_text_def)
  have s1: "split_maxsplit1 (strip ''BOGUS {}'') = [''BOGUS'', ''{}'']"
    by (simp add: split_maxsplit1_def strip_def is_space_def)
  have s2: "split_maxsplit1 (strip ''SYNC_DONE {'') = [''SYNC_DONE'', ''{'']"
    by (simp add: split_maxsplit1_def strip_def is_space_def)
  have t1: "map_of ENTRY_TYPE_TO_CLASS ''BOGUS'' = None"
    by (simp add: table)
  have t2: "map_of ENTRY_TYPE_TO_CLASS ''SYNC_DONE'' = Some CSyncDone"
    by (simp add: table)
  have l2: "loads example_python ''{'' = Inl JSONDecodeError"
    by (simp add: example_python_def example_text_def)
  have str: "entry_str example_python (SyncDone 7) = ''SYNC_DONE '' @ example_text"
    by (simp add: entry_str_def entry_type_cases example_python_def)
  from parse_serialize_round_trip[OF 1 2 3, of "''BOGUS {}''" "''BOGUS''" "''{}''" CSyncDone JSONDecodeError]
    parse_serialize_round_trip[OF 1 2 3, of "''SYNC_DONE {''" "''SYNC_DONE''" "''{''" CSyncDone JSONDecodeError]
    s1 s2 t1 t2 l2 str
  show ?thesis by simp
qed

end
